theory Spec2Isabelle
  imports Main "HOL-Library.Multiset" "HOL-Library.Option_ord"
begin

section \<open>Data model of the timesheet views\<close>

text \<open>
  The views of \<^verbatim>\<open>timepiece/crm/views.py\<close> read and write entities that live in a
  relational store behind an object-relational mapping. The store is modelled as a record
  of tables, each table a list of rows in insertion order. Primary keys are natural
  numbers. Decimal hours are counted in hundredths of an hour, so sums are exact.
  Instants are wall-clock microseconds since an arbitrary epoch.
\<close>

datatype failure = Http404 | PermissionDenied | MultipleObjectsReturned | ValueError

record user =
  user_pk :: nat
  first_name :: string
  last_name :: string
  permissions :: "string list"

record project =
  project_pk :: nat
  project_name :: string

record project_relationship =
  rel_pk :: nat
  rel_user :: nat
  rel_project :: nat

record entry =
  entry_pk :: nat
  entry_user :: nat
  user_first_name :: string
  user_last_name :: string
  entry_project :: nat
  activity_name :: string
  location_name :: string
  start_time :: int
  end_time :: "int option"
  seconds_paused :: int
  hours :: int

record store =
  users :: "user list"
  projects :: "project list"
  relationships :: "project_relationship list"
  entries :: "entry list"

text \<open>
  \<^verbatim>\<open>request.user\<close> is either the anonymous user or a stored user; two users are equal
  when their primary keys are, and the anonymous user equals no stored user and holds no
  permission.
\<close>

datatype requester = AnonymousUser | Authenticated user

fun same_user :: "requester \<Rightarrow> user \<Rightarrow> bool" where
  "same_user AnonymousUser t = False"
| "same_user (Authenticated u) t = (user_pk u = user_pk t)"

fun has_perm :: "requester \<Rightarrow> string \<Rightarrow> bool" where
  "has_perm AnonymousUser perm = False"
| "has_perm (Authenticated u) perm = (perm \<in> set (permissions u))"

text \<open>
  A request carries its user, the query dictionary \<^verbatim>\<open>GET\<close>, the form dictionary
  \<^verbatim>\<open>POST\<close> and the merged dictionary \<^verbatim>\<open>REQUEST\<close> from which the relationship views
  read \<^verbatim>\<open>user_id\<close> and \<^verbatim>\<open>project_id\<close>. The values of \<^verbatim>\<open>REQUEST\<close> are the raw
  strings of the request; \<^verbatim>\<open>REQUEST.get(key, None)\<close> is \<open>None\<close> for a missing key.
\<close>

record request =
  request_user :: requester
  GET :: "(string \<times> string) list"
  POST :: "(string \<times> string) list"
  REQUEST :: "string \<rightharpoonup> string"

definition GET_or_None :: "request \<Rightarrow> (string \<times> string) list option" where
  \<comment> \<open>\<^verbatim>\<open>request.GET or None\<close>: an empty dictionary is falsy.\<close>
  "GET_or_None request = (if GET request = [] then None else Some (GET request))"

datatype response = HttpResponseRedirect string

text \<open>
  \<^verbatim>\<open>get_object_or_404\<close> runs \<^verbatim>\<open>get\<close> with a lookup condition: no row is a not-found
  failure, one row is returned, several rows raise \<^verbatim>\<open>MultipleObjectsReturned\<close>.
\<close>

definition get_object_or_404 :: "('a \<Rightarrow> bool) \<Rightarrow> 'a list \<Rightarrow> failure + 'a" where
  "get_object_or_404 lookup objects =
     (case filter lookup objects of
        [] \<Rightarrow> Inl Http404
      | [x] \<Rightarrow> Inr x
      | _ \<Rightarrow> Inl MultipleObjectsReturned)"

text \<open>
  A lookup on a primary key converts the given value with Python's \<^verbatim>\<open>int\<close>: white
  space around the text is dropped, a sign may come first, and the rest must be one or
  more decimal digits. Any other text raises \<^verbatim>\<open>ValueError\<close>, which
  \<^verbatim>\<open>get_object_or_404\<close> does not catch.
\<close>

definition is_space :: "char \<Rightarrow> bool" where
  "is_space c = (of_char c \<in> {9, 10, 11, 12, 13, 32 :: nat})"

definition strip :: "string \<Rightarrow> string" where
  "strip s = rev (dropWhile is_space (rev (dropWhile is_space s)))"

definition digit_value :: "char \<Rightarrow> nat option" where
  "digit_value c =
     (if 48 \<le> (of_char c :: nat) \<and> (of_char c :: nat) \<le> 57 then Some (of_char c - 48)
      else None)"

fun digits_value :: "string \<Rightarrow> nat \<Rightarrow> nat option" where
  "digits_value [] acc = Some acc"
| "digits_value (c # cs) acc =
     (case digit_value c of None \<Rightarrow> None | Some d \<Rightarrow> digits_value cs (10 * acc + d))"

definition python_int :: "string \<Rightarrow> int option" where
  "python_int s =
     (case strip s of
        [] \<Rightarrow> None
      | c # cs \<Rightarrow>
          if c = CHR ''-'' then
            (if cs = [] then None else map_option (\<lambda>n. - int n) (digits_value cs 0))
          else if c = CHR ''+'' then
            (if cs = [] then None else map_option int (digits_value cs 0))
          else map_option int (digits_value (c # cs) 0))"

definition get_by_pk_or_404 :: "('a \<Rightarrow> nat) \<Rightarrow> 'a list \<Rightarrow> string \<Rightarrow> failure + 'a" where
  \<comment> \<open>\<^verbatim>\<open>get_object_or_404(Model, pk=value)\<close> with the raw string of a request.\<close>
  "get_by_pk_or_404 pk objects value =
     (case python_int value of
        None \<Rightarrow> Inl ValueError
      | Some i \<Rightarrow> get_object_or_404 (\<lambda>x. int (pk x) = i) objects)"

section \<open>Time and dates\<close>

type_synonym 'z aware = "int \<times> 'z"

definition days :: "int \<Rightarrow> int" where
  \<comment> \<open>\<^verbatim>\<open>relativedelta(days=n)\<close> in microseconds.\<close>
  "days n = n * 86400000000"

definition microseconds :: "int \<Rightarrow> int" where
  \<comment> \<open>\<^verbatim>\<open>relativedelta(microseconds=n)\<close>.\<close>
  "microseconds n = n"

text \<open>
  Modelled from the spec: \<^verbatim>\<open>timepiece.utils.add_timezone\<close> is not among the sources.
  The spec's JSON endpoint returns the week buckets as \<^verbatim>\<open>[start, end]\<close> pairs of the
  instants the loop computes, so the model attaches the current time zone to a naive value
  and leaves the value itself unchanged.
\<close>

definition add_timezone :: "'z \<Rightarrow> 'a \<Rightarrow> 'a \<times> 'z" where
  "add_timezone tz v = (v, tz)"

definition wall :: "'a \<times> 'z \<Rightarrow> 'a" where
  \<comment> \<open>The wall-clock reading of an aware value.\<close>
  "wall a = fst a"

record date =
  year :: int
  month :: nat
  day :: nat

definition is_leap :: "int \<Rightarrow> bool" where
  "is_leap y = (y mod 4 = 0 \<and> (y mod 100 \<noteq> 0 \<or> y mod 400 = 0))"

definition days_in_month :: "int \<Rightarrow> nat \<Rightarrow> nat" where
  "days_in_month y m =
     (if m = 2 then (if is_leap y then 29 else 28)
      else if m = 4 \<or> m = 6 \<or> m = 9 \<or> m = 11 then 30
      else 31)"

definition plus_one_month :: "date \<Rightarrow> date" where
  \<comment> \<open>\<^verbatim>\<open>d + relativedelta(months=1)\<close>: the day is clipped to the length of the new month.\<close>
  "plus_one_month d =
     (let y = (if month d = 12 then year d + 1 else year d);
          m = (if month d = 12 then 1 else month d + 1)
      in \<lparr>year = y, month = m, day = min (day d) (days_in_month y m)\<rparr>)"

definition minus_one_day :: "date \<Rightarrow> date" where
  \<comment> \<open>\<^verbatim>\<open>d - relativedelta(days=1)\<close>.\<close>
  "minus_one_day d =
     (if 1 < day d then d\<lparr>day := day d - 1\<rparr>
      else if 1 < month d then
        \<lparr>year = year d, month = month d - 1, day = days_in_month (year d) (month d - 1)\<rparr>
      else \<lparr>year = year d - 1, month = 12, day = 31\<rparr>)"

text \<open>
  Modelled from the spec: \<^verbatim>\<open>timepiece.utils.get_month_start\<close> is not among the sources.
  The spec's default report range is the current month, so the function moves an aware
  date to the first day of its month.
\<close>

definition get_month_start :: "date \<times> 'z \<Rightarrow> date \<times> 'z" where
  "get_month_start d = ((fst d)\<lparr>day := 1\<rparr>, snd d)"

section \<open>User timesheets\<close>

text \<open>
  \<^verbatim>\<open>UserTimesheetMixin.dispatch\<close> stores three attributes on the view before it hands the
  request to the next \<^verbatim>\<open>dispatch\<close>.
\<close>

record 'm timesheet_view =
  timesheet_user :: user
  month_form :: "(string \<times> string) list option"
  this_month :: 'm

text \<open>
  Every access to the store is logged, so that the order of permission checks and data
  accesses can be stated. \<^verbatim>\<open>has_perm\<close> of a stored user reads the permissions of the
  user and the permissions of the user's groups from the store; the anonymous user holds
  no permission and nothing is read for it.
\<close>

datatype access =
  UserLookup nat
| UserPermissionsQuery nat
| GroupPermissionsQuery nat
| HandlerAccess string

fun has_perm_queries :: "requester \<Rightarrow> access list" where
  "has_perm_queries AnonymousUser = []"
| "has_perm_queries (Authenticated u) =
     [UserPermissionsQuery (user_pk u), GroupPermissionsQuery (user_pk u)]"

text \<open>
  \<^verbatim>\<open>UserTimesheetMixin.dispatch\<close>. The month form's \<^verbatim>\<open>get_month_start\<close> lives in
  \<^verbatim>\<open>timepiece.crm.forms\<close> and the next \<^verbatim>\<open>dispatch\<close> in the framework; both are
  parameters. The result pairs the outcome with the log of store accesses. The user id
  comes from the URL pattern and is a number. The permission is tested only when the
  requester is not the timesheet user.
\<close>

definition dispatch_view ::
  "((string \<times> string) list option \<Rightarrow> 'm) \<Rightarrow>
   ('m timesheet_view \<Rightarrow> request \<Rightarrow> 'r \<times> access list) \<Rightarrow>
   user \<Rightarrow> request \<Rightarrow> access list \<Rightarrow> (failure + 'r) \<times> access list" where
  \<comment> \<open>The lines after the permission test: the month form, then the next \<^verbatim>\<open>dispatch\<close>.\<close>
  "dispatch_view form_get_month_start super_dispatch tu request before =
     (let form = GET_or_None request;
          view = \<lparr>timesheet_user = tu, month_form = form,
                  this_month = form_get_month_start form\<rparr>;
          (resp, log) = super_dispatch view request
      in (Inr resp, before @ log))"

definition dispatch ::
  "((string \<times> string) list option \<Rightarrow> 'm) \<Rightarrow>
   ('m timesheet_view \<Rightarrow> request \<Rightarrow> 'r \<times> access list) \<Rightarrow>
   store \<Rightarrow> request \<Rightarrow> nat \<Rightarrow> (failure + 'r) \<times> access list" where
  "dispatch form_get_month_start super_dispatch db request user_id =
     (case get_object_or_404 (\<lambda>u. user_pk u = user_id) (users db) of
        Inl e \<Rightarrow> (Inl e, [UserLookup user_id])
      | Inr tu \<Rightarrow>
          if \<not> same_user (request_user request) tu then
            if \<not> has_perm (request_user request) ''entries.view_entry_summary''
            then (Inl PermissionDenied,
                  UserLookup user_id # has_perm_queries (request_user request))
            else dispatch_view form_get_month_start super_dispatch tu request
                   (UserLookup user_id # has_perm_queries (request_user request))
          else dispatch_view form_get_month_start super_dispatch tu request
                 [UserLookup user_id])"

text \<open>
  \<^verbatim>\<open>ViewUserTimesheetAjax.get_month_entries\<close>. The argument \<open>extended_month_range\<close> is
  the pair returned by the month form's \<^verbatim>\<open>get_extended_month_range\<close>, and \<open>summary\<close>
  is what \<^verbatim>\<open>summaries()\<close> makes of one entry; both live outside this file. The lookup
  \<^verbatim>\<open>end_time__range\<close> is SQL's \<^verbatim>\<open>BETWEEN\<close>: both bounds are included and an entry
  without end time never matches.
\<close>

definition end_time_in_range :: "int \<Rightarrow> int \<Rightarrow> entry \<Rightarrow> bool" where
  "end_time_in_range start end e =
     (case end_time e of None \<Rightarrow> False | Some t \<Rightarrow> start \<le> t \<and> t \<le> end)"

definition get_month_entries ::
  "(entry \<Rightarrow> 's) \<Rightarrow> store \<Rightarrow> int \<times> int \<Rightarrow> 'm timesheet_view \<Rightarrow> 's list" where
  "get_month_entries summary db extended_month_range view =
     (let (start, end) = extended_month_range;
          qs = filter (\<lambda>e. entry_user e = user_pk (timesheet_user view)) (entries db);
          qs = filter (end_time_in_range start end) qs;
          qs = sort_key end_time qs
      in map summary qs)"

text \<open>\<^verbatim>\<open>ViewUserTimesheetAjax.get_weeks\<close>: the loop and the method around it.\<close>

function get_weeks_loop ::
  "'z \<Rightarrow> int \<Rightarrow> int \<Rightarrow> ('z aware \<times> 'z aware) list \<Rightarrow> ('z aware \<times> 'z aware) list" where
  "get_weeks_loop tz cursor end weeks =
     (if cursor < end then
        (let next_week = cursor + days 7 in
         get_weeks_loop tz next_week end
           (weeks @ [(add_timezone tz cursor,
                      add_timezone tz (next_week - microseconds 1))]))
      else weeks)"
  by pat_completeness auto
termination
  by (relation "measure (\<lambda>(tz, cursor, end, weeks). nat (end - cursor))")
     (auto simp: days_def)

declare get_weeks_loop.simps [simp del]

definition get_weeks :: "'z \<Rightarrow> int \<times> int \<Rightarrow> ('z aware \<times> 'z aware) list" where
  "get_weeks tz extended_month_range =
     (let (start, end) = extended_month_range in get_weeks_loop tz start end [])"

definition in_bucket :: "int \<Rightarrow> 'z aware \<times> 'z aware \<Rightarrow> bool" where
  \<comment> \<open>The instant lies between the two ends of a week bucket, both included.\<close>
  "in_bucket t b = (wall (fst b) \<le> t \<and> t \<le> wall (snd b))"

section \<open>Project timesheets\<close>

text \<open>
  The aggregate \<^verbatim>\<open>Sum('hours')\<close> over a whole queryset is SQL's \<^verbatim>\<open>SUM\<close>: it is
  \<^verbatim>\<open>None\<close> when the queryset has no row.
\<close>

definition Sum_hours :: "entry list \<Rightarrow> int option" where
  "Sum_hours qs = (if qs = [] then None else Some (sum_list (map hours qs)))"

text \<open>
  \<^verbatim>\<open>order_by().values(...).annotate(sum=Sum('hours'))\<close> groups the rows by the named
  values: one row per distinct value, with the sum of the hours of its group. A group is
  never empty, so its sum is a number. \<^verbatim>\<open>order_by('-sum')\<close> sorts the groups by
  descending sum.
\<close>

definition values_annotate_sum :: "(entry \<Rightarrow> 'k) \<Rightarrow> entry list \<Rightarrow> ('k \<times> int) list" where
  "values_annotate_sum key qs =
     map (\<lambda>k. (k, sum_list (map hours (filter (\<lambda>e. key e = k) qs)))) (remdups (map key qs))"

definition order_by_minus_sum :: "('k \<times> int) list \<Rightarrow> ('k \<times> int) list" where
  "order_by_minus_sum rows = sort_key (\<lambda>r. - snd r) rows"

text \<open>
  One row of \<^verbatim>\<open>context['entries']\<close>, the value dictionaries that \<^verbatim>\<open>date_trunc\<close> makes
  of the month's entries. The month queryset keeps only entries whose end time lies in the
  month, so the end time of a row is present.
\<close>

record entry_values =
  v_start_time :: int
  v_end_time :: int
  v_user_first_name :: string
  v_user_last_name :: string
  v_activity_name :: string
  v_location_name :: string
  v_seconds_paused :: int
  v_hours :: int

text \<open>
  \<^verbatim>\<open>YearMonthForm(data)\<close>. A form built from \<^verbatim>\<open>None\<close> is unbound and has no errors; a
  form built from a dictionary is bound, and its errors are the fields of the dictionary
  that do not validate. The validation of the fields (\<open>clean\<close>) and \<^verbatim>\<open>save\<close> live in
  \<^verbatim>\<open>timepiece.forms\<close> and are parameters. \<^verbatim>\<open>is_valid()\<close> holds for a bound form
  without errors.
\<close>

record year_month_form =
  form_data :: "(string \<times> string) list option"
  form_errors :: "string list"

definition YearMonthForm ::
  "((string \<times> string) list \<Rightarrow> string list) \<Rightarrow> (string \<times> string) list option \<Rightarrow>
   year_month_form" where
  "YearMonthForm clean data =
     \<lparr>form_data = data,
      form_errors = (case data of None \<Rightarrow> [] | Some d \<Rightarrow> clean d)\<rparr>"

definition is_valid :: "year_month_form \<Rightarrow> bool" where
  "is_valid form = (form_data form \<noteq> None \<and> form_errors form = [])"

record 'z timesheet_context =
  ctx_project :: project
  ctx_year_month_form :: year_month_form
  ctx_from_date :: date
  ctx_to_date :: date
  ctx_entries :: "entry_values list"
  ctx_total :: "int option"
  ctx_user_entries :: "((string \<times> string) \<times> int) list"
  ctx_activity_entries :: "(string \<times> int) list"

text \<open>
  \<^verbatim>\<open>ProjectTimesheet.get_context_data\<close>. The validation and \<^verbatim>\<open>save\<close> of the
  year/month form, the manager's \<^verbatim>\<open>timespan(from_date, span='month')\<close> and
  \<^verbatim>\<open>date_trunc\<close> live outside this file and are parameters; \<open>today\<close> is the date of
  \<^verbatim>\<open>datetime.datetime.today()\<close> and \<open>tz\<close> the current time zone.
\<close>

definition get_context_data ::
  "((string \<times> string) list \<Rightarrow> string list) \<Rightarrow>
   (year_month_form \<Rightarrow> date \<times> date) \<Rightarrow>
   (date \<Rightarrow> entry \<Rightarrow> bool) \<Rightarrow>
   (entry list \<Rightarrow> entry_values list) \<Rightarrow>
   'z \<Rightarrow> date \<Rightarrow> store \<Rightarrow> project \<Rightarrow> request \<Rightarrow> 'z timesheet_context" where
  "get_context_data clean save timespan date_trunc tz today db project request =
     (let year_month_form = YearMonthForm clean (GET_or_None request);
          (from_date, to_date) =
            (if GET request \<noteq> [] \<and> is_valid year_month_form then save year_month_form
             else
               (let date = add_timezone tz today;
                    from_date = wall (get_month_start date)
                in (from_date, plus_one_month from_date)));
          entries_qs = filter (\<lambda>e. entry_project e = project_pk project)
                         (filter (timespan from_date) (entries db));
          month_entries = date_trunc entries_qs;
          total = Sum_hours entries_qs;
          user_entries = order_by_minus_sum
            (values_annotate_sum (\<lambda>e. (user_first_name e, user_last_name e)) entries_qs);
          activity_entries = order_by_minus_sum
            (values_annotate_sum activity_name entries_qs)
      in \<lparr>ctx_project = project,
          ctx_year_month_form = year_month_form,
          ctx_from_date = from_date,
          ctx_to_date = minus_one_day to_date,
          ctx_entries = month_entries,
          ctx_total = total,
          ctx_user_entries = user_entries,
          ctx_activity_entries = activity_entries\<rparr>)"

text \<open>
  \<^verbatim>\<open>ProjectTimesheetCSV.convert_context_to_csv\<close>. A cell is a text, a decimal number of
  hours or \<^verbatim>\<open>None\<close>. \<^verbatim>\<open>strftime\<close> depends on the locale and \<^verbatim>\<open>seconds_to_hours\<close> is a
  template tag outside this file; both are parameters.
\<close>

datatype cell = Text string | Number int | NoneCell

definition total_cell :: "int option \<Rightarrow> cell" where
  "total_cell v = (case v of None \<Rightarrow> NoneCell | Some h \<Rightarrow> Number h)"

definition csv_data ::
  "(string \<Rightarrow> int \<Rightarrow> string) \<Rightarrow> (int \<Rightarrow> cell) \<Rightarrow> entry_values \<Rightarrow> cell list" where
  "csv_data strftime seconds_to_hours entry =
     [Text (strftime ''%x'' (v_start_time entry)),
      Text (v_user_first_name entry @ '' '' @ v_user_last_name entry),
      Text (v_activity_name entry),
      Text (v_location_name entry),
      Text (strftime ''%X'' (v_start_time entry)),
      Text (strftime ''%X'' (v_end_time entry)),
      seconds_to_hours (v_seconds_paused entry),
      Number (v_hours entry)]"

fun csv_loop ::
  "(string \<Rightarrow> int \<Rightarrow> string) \<Rightarrow> (int \<Rightarrow> cell) \<Rightarrow> entry_values list \<Rightarrow>
   cell list list \<Rightarrow> cell list list" where
  "csv_loop strftime seconds_to_hours [] rows = rows"
| "csv_loop strftime seconds_to_hours (entry # rest) rows =
     csv_loop strftime seconds_to_hours rest
       (rows @ [csv_data strftime seconds_to_hours entry])"

definition convert_context_to_csv ::
  "(string \<Rightarrow> int \<Rightarrow> string) \<Rightarrow> (int \<Rightarrow> cell) \<Rightarrow> 'z timesheet_context \<Rightarrow>
   cell list list" where
  "convert_context_to_csv strftime seconds_to_hours context =
     (let rows = [];
          rows = rows @ [[Text ''Date'', Text ''User'', Text ''Activity'', Text ''Location'',
                          Text ''Time In'', Text ''Time Out'', Text ''Breaks'', Text ''Hours'']];
          rows = csv_loop strftime seconds_to_hours (ctx_entries context) rows;
          total = ctx_total context;
          rows = rows @ [[Text [], Text [], Text [], Text [], Text [], Text [],
                          Text ''Total:'', total_cell total]]
      in rows)"

section \<open>User-project relationships\<close>

text \<open>
  \<^verbatim>\<open>CreateRelationship\<close>. The selection forms of \<^verbatim>\<open>timepiece.crm.forms\<close> and the success
  URL of \<^verbatim>\<open>RedirectMessageMixin\<close> live outside this file and are parameters. A raised
  failure leaves the store as it was: the view runs under \<^verbatim>\<open>commit_on_success\<close>. The
  test \<^verbatim>\<open>if user_id:\<close> fails for a missing parameter and for the empty string.
\<close>

definition get_user ::
  "((string \<times> string) list \<Rightarrow> user option) \<Rightarrow> store \<Rightarrow> request \<Rightarrow> failure + user option" where
  "get_user select_user_form db request =
     (case REQUEST request ''user_id'' of
        None \<Rightarrow> Inr (select_user_form (POST request))
      | Some user_id \<Rightarrow>
          if user_id \<noteq> [] then
            (case get_by_pk_or_404 user_pk (users db) user_id of
               Inl e \<Rightarrow> Inl e
             | Inr u \<Rightarrow> Inr (Some u))
          else Inr (select_user_form (POST request)))"

definition get_project ::
  "((string \<times> string) list \<Rightarrow> project option) \<Rightarrow> store \<Rightarrow> request \<Rightarrow>
   failure + project option" where
  "get_project select_project_form db request =
     (case REQUEST request ''project_id'' of
        None \<Rightarrow> Inr (select_project_form (POST request))
      | Some project_id \<Rightarrow>
          if project_id \<noteq> [] then
            (case get_by_pk_or_404 project_pk (projects db) project_id of
               Inl e \<Rightarrow> Inl e
             | Inr p \<Rightarrow> Inr (Some p))
          else Inr (select_project_form (POST request)))"

definition is_relationship :: "nat \<Rightarrow> nat \<Rightarrow> project_relationship \<Rightarrow> bool" where
  "is_relationship user_id project_id r = (rel_user r = user_id \<and> rel_project r = project_id)"

definition next_pk :: "project_relationship list \<Rightarrow> nat" where
  \<comment> \<open>The key the store gives a new row: one more than every key in use.\<close>
  "next_pk rels = Suc (fold max (map rel_pk rels) 0)"

text \<open>
  \<^verbatim>\<open>objects.get_or_create(user=user, project=project)\<close>: \<^verbatim>\<open>get\<close> the row of the pair,
  and create it when there is none.
\<close>

definition get_or_create ::
  "project_relationship list \<Rightarrow> nat \<Rightarrow> nat \<Rightarrow>
   failure + (project_relationship \<times> bool) \<times> project_relationship list" where
  "get_or_create rels user_id project_id =
     (case filter (is_relationship user_id project_id) rels of
        [] \<Rightarrow>
          (let r = \<lparr>rel_pk = next_pk rels, rel_user = user_id, rel_project = project_id\<rparr>
           in Inr ((r, True), rels @ [r]))
      | [r] \<Rightarrow> Inr ((r, False), rels)
      | _ \<Rightarrow> Inl MultipleObjectsReturned)"

definition post ::
  "((string \<times> string) list \<Rightarrow> user option) \<Rightarrow>
   ((string \<times> string) list \<Rightarrow> project option) \<Rightarrow>
   (request \<Rightarrow> string) \<Rightarrow> store \<Rightarrow> request \<Rightarrow> (failure + response) \<times> store" where
  "post select_user_form select_project_form get_success_url db request =
     (case get_user select_user_form db request of
        Inl e \<Rightarrow> (Inl e, db)
      | Inr user \<Rightarrow>
          (case get_project select_project_form db request of
             Inl e \<Rightarrow> (Inl e, db)
           | Inr project \<Rightarrow>
               (case (user, project) of
                  (Some u, Some p) \<Rightarrow>
                    (case get_or_create (relationships db) (user_pk u) (project_pk p) of
                       Inl e \<Rightarrow> (Inl e, db)
                     | Inr (found, rels) \<Rightarrow>
                         (Inr (HttpResponseRedirect (get_success_url request)),
                          db\<lparr>relationships := rels\<rparr>))
                | _ \<Rightarrow> (Inr (HttpResponseRedirect (get_success_url request)), db))))"

text \<open>The store after \<open>n\<close> relationship-create requests in a row.\<close>

fun post_repeatedly ::
  "((string \<times> string) list \<Rightarrow> user option) \<Rightarrow>
   ((string \<times> string) list \<Rightarrow> project option) \<Rightarrow>
   (request \<Rightarrow> string) \<Rightarrow> request \<Rightarrow> nat \<Rightarrow> store \<Rightarrow> store" where
  "post_repeatedly select_user_form select_project_form get_success_url request 0 db = db"
| "post_repeatedly select_user_form select_project_form get_success_url request (Suc n) db =
     post_repeatedly select_user_form select_project_form get_success_url request n
       (snd (post select_user_form select_project_form get_success_url db request))"

text \<open>
  \<^verbatim>\<open>RelationshipObjectMixin.get_object\<close>. The queryset is computed as in the source and
  then not used: the lookup goes to the model's table with the two parameters of the
  request, as they are. The text of a parameter is converted with \<^verbatim>\<open>int\<close> when the
  query is built, before any row is read; a missing parameter is the lookup value
  \<^verbatim>\<open>None\<close>, which no row matches.
\<close>

definition get_queryset :: "store \<Rightarrow> project_relationship list" where
  "get_queryset db = relationships db"

definition lookup_value :: "string option \<Rightarrow> failure + int option" where
  "lookup_value v =
     (case v of
        None \<Rightarrow> Inr None
      | Some s \<Rightarrow> (case python_int s of None \<Rightarrow> Inl ValueError | Some i \<Rightarrow> Inr (Some i)))"

definition has_pair :: "int option \<Rightarrow> int option \<Rightarrow> project_relationship \<Rightarrow> bool" where
  \<comment> \<open>The condition \<^verbatim>\<open>user__id=u, project__id=p\<close> on one row.\<close>
  "has_pair u p r = (u = Some (int (rel_user r)) \<and> p = Some (int (rel_project r)))"

definition get_object ::
  "store \<Rightarrow> request \<Rightarrow> project_relationship list option \<Rightarrow> failure + project_relationship" where
  "get_object db request queryset =
     (let queryset = (case queryset of None \<Rightarrow> get_queryset db | Some q \<Rightarrow> q);
          user_id = REQUEST request ''user_id'';
          project_id = REQUEST request ''project_id''
      in case lookup_value user_id of
           Inl e \<Rightarrow> Inl e
         | Inr u \<Rightarrow>
             (case lookup_value project_id of
                Inl e \<Rightarrow> Inl e
              | Inr p \<Rightarrow> get_object_or_404 (has_pair u p) (relationships db)))"

definition rekey :: "(nat \<Rightarrow> nat) \<Rightarrow> project_relationship \<Rightarrow> project_relationship" where
  \<comment> \<open>The same association under another surrogate key.\<close>
  "rekey f r = r\<lparr>rel_pk := f (rel_pk r)\<rparr>"

section \<open>Closed forms used in the proofs\<close>

text \<open>
  The week loop started at \<open>start\<close> appends \<open>week_count start end\<close> buckets, and
  \<open>week_bucket tz start i\<close> is the bucket of index \<open>i\<close>.
\<close>

definition week_bucket :: "'z \<Rightarrow> int \<Rightarrow> nat \<Rightarrow> 'z aware \<times> 'z aware" where
  "week_bucket tz start i =
     ((start + int i * days 7, tz), (start + int i * days 7 + days 7 - 1, tz))"

definition week_count :: "int \<Rightarrow> int \<Rightarrow> nat" where
  "week_count start end = nat ((end - start + days 7 - 1) div days 7)"


section \<open>Concrete data for the examples\<close>

definition alice :: user where
  "alice = \<lparr>user_pk = 1, first_name = ''Alice'', last_name = ''Ames'', permissions = []\<rparr>"

definition bob :: user where
  "bob = \<lparr>user_pk = 2, first_name = ''Bob'', last_name = ''Bell'', permissions = []\<rparr>"

definition site :: project where
  "site = \<lparr>project_pk = 1, project_name = ''Site''\<rparr>"

definition example_store :: store where
  "example_store = \<lparr>users = [alice, bob], projects = [site], relationships = [], entries = []\<rparr>"

definition request_with :: "requester \<Rightarrow> (string \<rightharpoonup> string) \<Rightarrow> request" where
  "request_with r params = \<lparr>request_user = r, GET = [], POST = [], REQUEST = params\<rparr>"

definition page_view :: "unit timesheet_view \<Rightarrow> request \<Rightarrow> string \<times> access list" where
  \<comment> \<open>A view that answers with a page after one query for entries.\<close>
  "page_view view request = (''page'', [HandlerAccess ''entries''])"

definition alice_on_site :: project_relationship where
  "alice_on_site = \<lparr>rel_pk = 7, rel_user = 1, rel_project = 1\<rparr>"

definition staffed_store :: store where
  "staffed_store = example_store\<lparr>relationships := [alice_on_site]\<rparr>"

definition logged :: "nat \<Rightarrow> user \<Rightarrow> nat \<Rightarrow> string \<Rightarrow> int \<Rightarrow> entry" where
  \<comment> \<open>An entry of one user on one project, with its activity and its hours.\<close>
  "logged k u p activity h =
     \<lparr>entry_pk = k, entry_user = user_pk u, user_first_name = first_name u,
      user_last_name = last_name u, entry_project = p, activity_name = activity,
      location_name = ''Office'', start_time = 0, end_time = Some 3600000000,
      seconds_paused = 0, hours = h\<rparr>"

definition busy_store :: store where
  "busy_store = example_store\<lparr>entries :=
     [logged 1 alice 1 ''dev'' 250, logged 2 bob 1 ''dev'' 400,
      logged 3 alice 1 ''design'' 100, logged 4 bob 2 ''dev'' 800]\<rparr>"

section \<open>Week buckets of the extended month range\<close>

lemma week_count_step:
  "cursor < end \<Longrightarrow> week_count cursor end = Suc (week_count (cursor + days 7) end)"
proof -
  assume lt: "cursor < end"
  define x where "x = end - cursor - 1"
  have x0: "0 \<le> x" using lt by (simp add: x_def)
  have w: "(0::int) < days 7" by (simp add: days_def)
  have a: "end - cursor + days 7 - 1 = x + days 7" by (simp add: x_def)
  have b: "end - (cursor + days 7) + days 7 - 1 = x" by (simp add: x_def)
  have c: "(x + days 7) div days 7 = x div days 7 + 1" using w div_add_self2 [of "days 7" x] by linarith
  have d: "0 \<le> x div days 7" using x0 w by (simp add: pos_imp_zdiv_nonneg_iff)
  show ?thesis unfolding week_count_def a b c using d by simp
qed

lemma week_count_done: "\<not> cursor < end \<Longrightarrow> week_count cursor end = 0"
  unfolding week_count_def days_def
  by simp

lemma get_weeks_loop_eq:
  "get_weeks_loop tz cursor end weeks =
     weeks @ map (week_bucket tz cursor) [0..<week_count cursor end]"
proof (induction tz cursor "end" weeks rule: get_weeks_loop.induct)
  case (1 tz cursor "end" weeks)
  show ?case
  proof (cases "cursor < end")
    case True
    have shift: "map (week_bucket tz (cursor + days 7)) [0..<n] =
          map (week_bucket tz cursor) (map Suc [0..<n])" for n
      by (simp add: week_bucket_def algebra_simps)
    have "get_weeks_loop tz cursor end weeks =
            get_weeks_loop tz (cursor + days 7) end
              (weeks @ [(add_timezone tz cursor,
                         add_timezone tz (cursor + days 7 - microseconds 1))])"
      using True by (subst get_weeks_loop.simps) (simp add: Let_def)
    also have "\<dots> = (weeks @ [week_bucket tz cursor 0]) @
            map (week_bucket tz (cursor + days 7)) [0..<week_count (cursor + days 7) end]"
      using "1.IH" [OF True refl]
      by (simp add: week_bucket_def add_timezone_def microseconds_def)
    also have "\<dots> = weeks @ map (week_bucket tz cursor) [0..<week_count cursor end]"
      unfolding week_count_step [OF True] shift
      by (simp add: upt_conv_Cons map_Suc_upt del: upt_Suc)
    finally show ?thesis .
  next
    case False
    then show ?thesis
      by (subst get_weeks_loop.simps) (simp add: week_count_done)
  qed
qed


lemma get_weeks_eq:
  "get_weeks tz (start, end) = map (week_bucket tz start) [0..<week_count start end]"
  by (simp add: get_weeks_def get_weeks_loop_eq)

lemma week_count_pos:
  assumes "start < end"
  shows "int (week_count start end) = (end - start - 1) div days 7 + 1"
proof -
  have w: "(0::int) < days 7" by (simp add: days_def)
  have a: "end - start + days 7 - 1 = (end - start - 1) + days 7" by simp
  have c: "((end - start - 1) + days 7) div days 7 = (end - start - 1) div days 7 + 1"
    using w div_add_self2 [of "days 7" "end - start - 1"] by linarith
  have d: "0 \<le> (end - start - 1) div days 7"
    using assms w by (simp add: pos_imp_zdiv_nonneg_iff)
  show ?thesis unfolding week_count_def a c using d by simp
qed

lemma in_bucket_iff:
  "in_bucket t (week_bucket tz start i) \<longleftrightarrow> (t - start) div days 7 = int i"
proof -
  have w: "(0::int) < days 7" by (simp add: days_def)
  show ?thesis
  proof
    assume "in_bucket t (week_bucket tz start i)"
    then have lo: "0 \<le> t - start - int i * days 7" and hi: "t - start - int i * days 7 < days 7"
      by (simp_all add: in_bucket_def week_bucket_def wall_def)
    have "t - start = days 7 * int i + (t - start - int i * days 7)" by simp
    then show "(t - start) div days 7 = int i"
      using lo hi by (rule int_div_pos_eq)
  next
    assume q: "(t - start) div days 7 = int i"
    have m0: "0 \<le> (t - start) mod days 7" and m1: "(t - start) mod days 7 < days 7"
      using w by simp_all
    have "t - start = int i * days 7 + (t - start) mod days 7"
      using q mult_div_mod_eq [of "days 7" "t - start"] by (simp add: mult.commute)
    then have "start + int i * days 7 \<le> t" and "t \<le> start + int i * days 7 + days 7 - 1"
      using m0 m1 by linarith+
    then show "in_bucket t (week_bucket tz start i)"
      by (simp add: in_bucket_def week_bucket_def wall_def)
  qed
qed

lemma get_weeks_cover:
  assumes "start \<le> t" "t < end"
  shows "\<exists>!i. i < length (get_weeks tz (start, end)) \<and> in_bucket t (get_weeks tz (start, end) ! i)"
proof -
  have w: "(0::int) < days 7" by (simp add: days_def)
  have se: "start < end" using assms by simp
  define k where "k = nat ((t - start) div days 7)"
  have k0: "0 \<le> (t - start) div days 7"
    using assms w by (simp add: pos_imp_zdiv_nonneg_iff)
  have kk: "int k = (t - start) div days 7" using k0 by (simp add: k_def)
  have "(t - start) div days 7 \<le> (end - start - 1) div days 7"
    using assms w by (intro zdiv_mono1) simp_all
  then have kn: "k < week_count start end"
    using week_count_pos [OF se] kk by linarith
  show ?thesis
  proof (rule ex1I [of _ k])
    show "k < length (get_weeks tz (start, end)) \<and> in_bucket t (get_weeks tz (start, end) ! k)"
      using kn kk by (simp add: get_weeks_eq in_bucket_iff)
  next
    fix i
    assume "i < length (get_weeks tz (start, end)) \<and> in_bucket t (get_weeks tz (start, end) ! i)"
    then have "i < week_count start end" and "in_bucket t (week_bucket tz start i)"
      by (auto simp: get_weeks_eq)
    then have "(t - start) div days 7 = int i"
      by (simp add: in_bucket_iff)
    then show "i = k" using kk by simp
  qed
qed

text \<open>
  Claim C1. The week buckets of \<^verbatim>\<open>get_weeks\<close> tile the extended range: when the range
  is not empty the first bucket starts at the range start; every bucket runs from its start
  to its start plus seven days minus one microsecond and starts before the range end; each
  next bucket starts one microsecond after the bucket before it ends, so consecutive
  buckets leave no gap and do not overlap; and every instant from the range start up to,
  but not including, the range end (the bound of the loop) lies in exactly one bucket.
\<close>

theorem get_weeks_tiles_range:
  "(start < end \<longrightarrow> get_weeks tz (start, end) \<noteq> [] \<and>
       wall (fst (hd (get_weeks tz (start, end)))) = start) \<and>
   (\<forall>b \<in> set (get_weeks tz (start, end)).
       wall (snd b) = wall (fst b) + days 7 - microseconds 1 \<and> wall (fst b) < end) \<and>
   (\<forall>i. Suc i < length (get_weeks tz (start, end)) \<longrightarrow>
       wall (fst (get_weeks tz (start, end) ! Suc i)) =
       wall (snd (get_weeks tz (start, end) ! i)) + microseconds 1) \<and>
   (\<forall>t. start \<le> t \<and> t < end \<longrightarrow>
       (\<exists>!i. i < length (get_weeks tz (start, end)) \<and>
             in_bucket t (get_weeks tz (start, end) ! i)))"
proof (intro conjI impI allI ballI)
  assume se: "start < end"
  have w: "(0::int) < days 7" by (simp add: days_def)
  have "0 \<le> (end - start - 1) div days 7"
    using se w by (simp add: pos_imp_zdiv_nonneg_iff)
  then have "0 < week_count start end" using week_count_pos [OF se] by linarith
  then show "get_weeks tz (start, end) \<noteq> []" by (simp add: get_weeks_eq)
  show "wall (fst (hd (get_weeks tz (start, end)))) = start"
    using \<open>0 < week_count start end\<close>
    by (simp add: get_weeks_eq hd_map week_bucket_def wall_def)
next
  fix b assume "b \<in> set (get_weeks tz (start, end))"
  then obtain i where "i < week_count start end" "b = week_bucket tz start i"
    by (auto simp: get_weeks_eq)
  then show "wall (snd b) = wall (fst b) + days 7 - microseconds 1"
    by (simp add: week_bucket_def wall_def microseconds_def)
  have w: "(0::int) < days 7" by (simp add: days_def)
  have se: "start < end"
    using \<open>i < week_count start end\<close> week_count_done [of start "end"] by auto
  have "int i \<le> (end - start - 1) div days 7"
    using \<open>i < week_count start end\<close> week_count_pos [OF se] by linarith
  then have "int i * days 7 \<le> ((end - start - 1) div days 7) * days 7"
    using w by (simp add: mult_right_mono)
  also have "\<dots> \<le> end - start - 1"
  proof -
    have e: "(end - start - 1) div days 7 * days 7 + (end - start - 1) mod days 7 =
        end - start - 1"
      by (rule div_mult_mod_eq)
    have m: "0 \<le> (end - start - 1) mod days 7" using w by simp
    have aux: "q \<le> x" if "q + r = x" "0 \<le> r" for q r x :: int
      using that by linarith
    show ?thesis by (rule aux [OF e m])
  qed
  finally have "start + int i * days 7 < end" by linarith
  moreover have "wall (fst b) = start + int i * days 7"
    using \<open>b = week_bucket tz start i\<close> by (simp add: week_bucket_def wall_def)
  ultimately show "wall (fst b) < end" by simp
next
  fix i assume "Suc i < length (get_weeks tz (start, end))"
  then show "wall (fst (get_weeks tz (start, end) ! Suc i)) =
       wall (snd (get_weeks tz (start, end) ! i)) + microseconds 1"
    by (simp add: get_weeks_eq week_bucket_def wall_def microseconds_def algebra_simps)
next
  fix t assume h: "start \<le> t \<and> t < end"
  show "\<exists>!i. i < length (get_weeks tz (start, end)) \<and>
             in_bucket t (get_weeks tz (start, end) ! i)"
    by (rule get_weeks_cover) (use h in simp_all)
qed


theorem get_weeks_tiles_range_witness:
  "get_weeks () (0, days 14) =
     [((0, ()), (604799999999, ())), ((604800000000, ()), (1209599999999, ()))] \<and>
   wall (fst (hd (get_weeks () (0, days 14)))) = 0 \<and>
   wall (fst (get_weeks () (0, days 14) ! Suc 0)) =
     wall (snd (get_weeks () (0, days 14) ! 0)) + microseconds 1 \<and>
   (\<exists>!i. i < length (get_weeks () (0, days 14)) \<and>
      in_bucket (days 7) (get_weeks () (0, days 14) ! i))"
proof -
  have v: "get_weeks () (0, days 14) =
      [((0, ()), (604799999999, ())), ((604800000000, ()), (1209599999999, ()))]"
    by (simp add: get_weeks_def get_weeks_loop.simps days_def microseconds_def
        add_timezone_def)
  have lt: "(0::int) < days 14" and len: "Suc 0 < length (get_weeks () (0, days 14))"
    and mid: "(0::int) \<le> days 7 \<and> days 7 < days 14"
    by (simp_all add: v) (simp_all add: days_def)
  note t = get_weeks_tiles_range [of 0 "days 14" "()"]
  have a: "wall (fst (hd (get_weeks () (0, days 14)))) = 0"
    using t lt by simp
  have b: "wall (fst (get_weeks () (0, days 14) ! Suc 0)) =
     wall (snd (get_weeks () (0, days 14) ! 0)) + microseconds 1"
    using t len by simp
  have c: "\<exists>!i. i < length (get_weeks () (0, days 14)) \<and>
      in_bucket (days 7) (get_weeks () (0, days 14) ! i)"
    using t mid by simp
  show ?thesis using v a b c by simp
qed
section \<open>The CSV export of a project timesheet\<close>

lemma csv_loop_eq:
  "csv_loop strftime seconds_to_hours es rows =
     rows @ map (csv_data strftime seconds_to_hours) es"
  by (induction es arbitrary: rows) simp_all

text \<open>
  Claim C5. The rows of \<^verbatim>\<open>convert_context_to_csv\<close> are the header row
  Date, User, Activity, Location, Time In, Time Out, Breaks, Hours, then one data row per
  entry of the context in order, then one trailing row of eight cells whose next-to-last
  cell is \<^verbatim>\<open>Total:\<close> and whose last cell is the total; the number of rows is the number
  of entries plus two.
\<close>

theorem convert_context_to_csv_rows:
  "convert_context_to_csv strftime seconds_to_hours context =
     [Text ''Date'', Text ''User'', Text ''Activity'', Text ''Location'',
      Text ''Time In'', Text ''Time Out'', Text ''Breaks'', Text ''Hours''] #
     map (csv_data strftime seconds_to_hours) (ctx_entries context) @
     [[Text [], Text [], Text [], Text [], Text [], Text [],
       Text ''Total:'', total_cell (ctx_total context)]] \<and>
   length (convert_context_to_csv strftime seconds_to_hours context) =
     length (ctx_entries context) + 2 \<and>
   length (last (convert_context_to_csv strftime seconds_to_hours context)) = 8 \<and>
   last (convert_context_to_csv strftime seconds_to_hours context) ! 6 = Text ''Total:''"
  by (simp add: convert_context_to_csv_def csv_loop_eq)

section \<open>Permission checks of the user timesheet\<close>

lemma dispatch_found:
  assumes "get_object_or_404 (\<lambda>u. user_pk u = user_id) (users db) = Inr tu"
  shows "fst (dispatch form_get_month_start super_dispatch db request user_id) =
     (if \<not> same_user (request_user request) tu \<and>
         \<not> has_perm (request_user request) ''entries.view_entry_summary''
      then Inl PermissionDenied
      else Inr (fst (super_dispatch
                  \<lparr>timesheet_user = tu, month_form = GET_or_None request,
                   this_month = form_get_month_start (GET_or_None request)\<rparr> request)))"
  using assms by (simp add: dispatch_def dispatch_view_def Let_def split_beta)

lemma get_object_or_404_failure:
  assumes "get_object_or_404 lookup xs = Inl e"
  shows "e = Http404 \<or> e = MultipleObjectsReturned"
  using assms by (auto simp: get_object_or_404_def split: list.splits)




text \<open>
  Claim C3. When the target user of a timesheet request exists: a requester who is not
  the target and lacks \<^verbatim>\<open>entries.view_entry_summary\<close> gets the forbidden failure, and a
  requester who is the target gets the response of the view, whatever permissions the
  requester holds.
\<close>

theorem dispatch_own_timesheet_or_permission:
  assumes "get_object_or_404 (\<lambda>u. user_pk u = user_id) (users db) = Inr tu"
  shows "(\<not> same_user (request_user request) tu \<and>
          \<not> has_perm (request_user request) ''entries.view_entry_summary'' \<longrightarrow>
            fst (dispatch form_get_month_start super_dispatch db request user_id) =
              Inl PermissionDenied) \<and>
         (same_user (request_user request) tu \<longrightarrow>
            fst (dispatch form_get_month_start super_dispatch db request user_id) =
              Inr (fst (super_dispatch
                     \<lparr>timesheet_user = tu, month_form = GET_or_None request,
                      this_month = form_get_month_start (GET_or_None request)\<rparr>
                     request)))"
  by (simp add: dispatch_found [OF assms])

theorem dispatch_own_timesheet_or_permission_witness:
  "get_object_or_404 (\<lambda>u. user_pk u = 2) (users example_store) = Inr bob \<and>
   fst (dispatch (\<lambda>form. ()) page_view example_store
          (request_with (Authenticated alice) Map.empty) 2) = Inl PermissionDenied \<and>
   get_object_or_404 (\<lambda>u. user_pk u = 1) (users example_store) = Inr alice \<and>
   fst (dispatch (\<lambda>form. ()) page_view example_store
          (request_with (Authenticated alice) Map.empty) 1) = Inr ''page''"
proof -
  have b: "get_object_or_404 (\<lambda>u. user_pk u = 2) (users example_store) = Inr bob"
    by (simp add: get_object_or_404_def example_store_def alice_def bob_def)
  have a: "get_object_or_404 (\<lambda>u. user_pk u = 1) (users example_store) = Inr alice"
    by (simp add: get_object_or_404_def example_store_def alice_def bob_def)
  have other: "\<not> same_user (request_user (request_with (Authenticated alice) Map.empty)) bob \<and>
      \<not> has_perm (request_user (request_with (Authenticated alice) Map.empty))
          ''entries.view_entry_summary''"
    by (simp add: request_with_def alice_def bob_def)
  have own: "same_user (request_user (request_with (Authenticated alice) Map.empty)) alice"
    by (simp add: request_with_def)
  have "fst (dispatch (\<lambda>form. ()) page_view example_store
          (request_with (Authenticated alice) Map.empty) 2) = Inl PermissionDenied"
    using dispatch_own_timesheet_or_permission [OF b] other by blast
  moreover have "fst (dispatch (\<lambda>form. ()) page_view example_store
          (request_with (Authenticated alice) Map.empty) 1) = Inr ''page''"
    using dispatch_own_timesheet_or_permission
      [OF a, of "request_with (Authenticated alice) Map.empty" "\<lambda>form. ()" page_view] own
    by (simp add: page_view_def)
  ultimately show ?thesis using a b by simp
qed

section \<open>Rejection and data access\<close>




section \<open>Creating a relationship without a user or a project\<close>







section \<open>The report range of a project timesheet\<close>

lemma get_context_data_unbound:
  "GET_or_None (request\<lparr>GET := []\<rparr>) = None"
  by (simp add: GET_or_None_def)

text \<open>
  Claim C10 as stated fails: for parameters that do not validate, the context is not the
  one of a request without parameters. It hands the bound form with its validation
  errors to the template.
\<close>

theorem invalid_selection_reaches_template:
  "form_errors (ctx_year_month_form
     (get_context_data (\<lambda>data. [''month''])
        (\<lambda>form. (\<lparr>year = 2000, month = 1, day = 1\<rparr>, \<lparr>year = 2000, month = 2, day = 1\<rparr>))
        (\<lambda>from_date e. True) (\<lambda>qs. []) () \<lparr>year = 2014, month = 2, day = 17\<rparr>
        example_store site
        ((request_with (Authenticated alice) Map.empty)\<lparr>GET := [(''month'', ''13'')]\<rparr>))) =
     [''month''] \<and>
   get_context_data (\<lambda>data. [''month''])
        (\<lambda>form. (\<lparr>year = 2000, month = 1, day = 1\<rparr>, \<lparr>year = 2000, month = 2, day = 1\<rparr>))
        (\<lambda>from_date e. True) (\<lambda>qs. []) () \<lparr>year = 2014, month = 2, day = 17\<rparr>
        example_store site
        ((request_with (Authenticated alice) Map.empty)\<lparr>GET := [(''month'', ''13'')]\<rparr>) \<noteq>
   get_context_data (\<lambda>data. [''month''])
        (\<lambda>form. (\<lparr>year = 2000, month = 1, day = 1\<rparr>, \<lparr>year = 2000, month = 2, day = 1\<rparr>))
        (\<lambda>from_date e. True) (\<lambda>qs. []) () \<lparr>year = 2014, month = 2, day = 17\<rparr>
        example_store site
        ((request_with (Authenticated alice) Map.empty)\<lparr>GET := []\<rparr>)"
  by (simp add: get_context_data_def Let_def GET_or_None_def YearMonthForm_def is_valid_def
      request_with_def)

text \<open>
  Claim C10, amended. When the query parameters of a project timesheet request are
  present but do not validate as a year/month selection, \<^verbatim>\<open>get_context_data\<close> raises
  nothing and falls back to the current month as the report range, from its first day to
  its last: the context is the one of the same request without parameters in everything
  but the year/month form. The validation errors are not dropped: the form of the context
  is bound to the parameters and carries their errors to the template, where the form of
  the request without parameters has none.
\<close>

theorem invalid_selection_falls_back_to_current_month:
  assumes "GET request \<noteq> []"
    and "\<not> is_valid (YearMonthForm clean (Some (GET request)))"
  shows "get_context_data clean save timespan date_trunc tz today db project request =
           (get_context_data clean save timespan date_trunc tz today db project
              (request\<lparr>GET := []\<rparr>))
             \<lparr>ctx_year_month_form := YearMonthForm clean (Some (GET request))\<rparr> \<and>
         ctx_from_date
           (get_context_data clean save timespan date_trunc tz today db project request) =
           today\<lparr>day := 1\<rparr> \<and>
         ctx_to_date
           (get_context_data clean save timespan date_trunc tz today db project request) =
           minus_one_day (plus_one_month (today\<lparr>day := 1\<rparr>)) \<and>
         form_errors (ctx_year_month_form
           (get_context_data clean save timespan date_trunc tz today db project request)) =
           clean (GET request) \<and>
         clean (GET request) \<noteq> [] \<and>
         form_errors (ctx_year_month_form
           (get_context_data clean save timespan date_trunc tz today db project
              (request\<lparr>GET := []\<rparr>))) = []"
proof -
  have errors: "clean (GET request) \<noteq> []"
    using assms(2) by (simp add: is_valid_def YearMonthForm_def)
  have bound: "GET_or_None request = Some (GET request)"
    using assms(1) by (simp add: GET_or_None_def)
  have a: "get_context_data clean save timespan date_trunc tz today db project request =
           (get_context_data clean save timespan date_trunc tz today db project
              (request\<lparr>GET := []\<rparr>))
             \<lparr>ctx_year_month_form := YearMonthForm clean (Some (GET request))\<rparr>"
    using assms
    by (simp add: get_context_data_def bound get_context_data_unbound Let_def)
  have b: "ctx_from_date
           (get_context_data clean save timespan date_trunc tz today db project request) =
           today\<lparr>day := 1\<rparr>"
    and c: "ctx_to_date
           (get_context_data clean save timespan date_trunc tz today db project request) =
           minus_one_day (plus_one_month (today\<lparr>day := 1\<rparr>))"
    using assms
    by (simp_all add: get_context_data_def bound Let_def add_timezone_def
        get_month_start_def wall_def)
  have d: "form_errors (ctx_year_month_form
           (get_context_data clean save timespan date_trunc tz today db project request)) =
           clean (GET request)"
    by (simp add: get_context_data_def bound Let_def split_beta YearMonthForm_def)
  have e: "form_errors (ctx_year_month_form
           (get_context_data clean save timespan date_trunc tz today db project
              (request\<lparr>GET := []\<rparr>))) = []"
    by (simp add: get_context_data_def get_context_data_unbound Let_def split_beta
        YearMonthForm_def)
  show ?thesis using a b c d e errors by blast
qed

theorem invalid_selection_falls_back_to_current_month_witness:
  "GET ((request_with (Authenticated alice) Map.empty)\<lparr>GET := [(''month'', ''13'')]\<rparr>) \<noteq> [] \<and>
   ctx_from_date
     (get_context_data (\<lambda>data. [''month''])
        (\<lambda>form. (\<lparr>year = 2000, month = 1, day = 1\<rparr>, \<lparr>year = 2000, month = 2, day = 1\<rparr>))
        (\<lambda>from_date e. True) (\<lambda>qs. []) ()
        \<lparr>year = 2014, month = 2, day = 17\<rparr> example_store site
        ((request_with (Authenticated alice) Map.empty)\<lparr>GET := [(''month'', ''13'')]\<rparr>)) =
     \<lparr>year = 2014, month = 2, day = 1\<rparr> \<and>
   ctx_to_date
     (get_context_data (\<lambda>data. [''month''])
        (\<lambda>form. (\<lparr>year = 2000, month = 1, day = 1\<rparr>, \<lparr>year = 2000, month = 2, day = 1\<rparr>))
        (\<lambda>from_date e. True) (\<lambda>qs. []) ()
        \<lparr>year = 2014, month = 2, day = 17\<rparr> example_store site
        ((request_with (Authenticated alice) Map.empty)\<lparr>GET := [(''month'', ''13'')]\<rparr>)) =
     \<lparr>year = 2014, month = 2, day = 28\<rparr> \<and>
   form_errors (ctx_year_month_form
     (get_context_data (\<lambda>data. [''month''])
        (\<lambda>form. (\<lparr>year = 2000, month = 1, day = 1\<rparr>, \<lparr>year = 2000, month = 2, day = 1\<rparr>))
        (\<lambda>from_date e. True) (\<lambda>qs. []) ()
        \<lparr>year = 2014, month = 2, day = 17\<rparr> example_store site
        ((request_with (Authenticated alice) Map.empty)\<lparr>GET := [(''month'', ''13'')]\<rparr>))) =
     [''month'']"
proof -
  have present:
    "GET ((request_with (Authenticated alice) Map.empty)\<lparr>GET := [(''month'', ''13'')]\<rparr>) \<noteq> []"
    by simp
  have invalid: "\<not> is_valid (YearMonthForm (\<lambda>data. [''month''])
      (Some (GET ((request_with (Authenticated alice) Map.empty)\<lparr>GET := [(''month'', ''13'')]\<rparr>))))"
    by (simp add: is_valid_def YearMonthForm_def)
  have range: "minus_one_day (plus_one_month (\<lparr>year = 2014, month = 2, day = 17\<rparr>\<lparr>day := 1\<rparr>)) =
      \<lparr>year = 2014, month = 2, day = 28\<rparr>"
    by (simp add: minus_one_day_def plus_one_month_def days_in_month_def is_leap_def)
  note t = invalid_selection_falls_back_to_current_month [OF present invalid,
      of "\<lambda>form. (\<lparr>year = 2000, month = 1, day = 1\<rparr>, \<lparr>year = 2000, month = 2, day = 1\<rparr>)"
         "\<lambda>from_date e. True" "\<lambda>qs. []" "()"
         "\<lparr>year = 2014, month = 2, day = 17\<rparr>" example_store site]
  have a: "ctx_from_date
     (get_context_data (\<lambda>data. [''month''])
        (\<lambda>form. (\<lparr>year = 2000, month = 1, day = 1\<rparr>, \<lparr>year = 2000, month = 2, day = 1\<rparr>))
        (\<lambda>from_date e. True) (\<lambda>qs. []) ()
        \<lparr>year = 2014, month = 2, day = 17\<rparr> example_store site
        ((request_with (Authenticated alice) Map.empty)\<lparr>GET := [(''month'', ''13'')]\<rparr>)) =
     \<lparr>year = 2014, month = 2, day = 17\<rparr>\<lparr>day := 1\<rparr>"
    using t by blast
  have b: "ctx_to_date
     (get_context_data (\<lambda>data. [''month''])
        (\<lambda>form. (\<lparr>year = 2000, month = 1, day = 1\<rparr>, \<lparr>year = 2000, month = 2, day = 1\<rparr>))
        (\<lambda>from_date e. True) (\<lambda>qs. []) ()
        \<lparr>year = 2014, month = 2, day = 17\<rparr> example_store site
        ((request_with (Authenticated alice) Map.empty)\<lparr>GET := [(''month'', ''13'')]\<rparr>)) =
     minus_one_day (plus_one_month (\<lparr>year = 2014, month = 2, day = 17\<rparr>\<lparr>day := 1\<rparr>))"
    using t by blast
  have c: "form_errors (ctx_year_month_form
     (get_context_data (\<lambda>data. [''month''])
        (\<lambda>form. (\<lparr>year = 2000, month = 1, day = 1\<rparr>, \<lparr>year = 2000, month = 2, day = 1\<rparr>))
        (\<lambda>from_date e. True) (\<lambda>qs. []) ()
        \<lparr>year = 2014, month = 2, day = 17\<rparr> example_store site
        ((request_with (Authenticated alice) Map.empty)\<lparr>GET := [(''month'', ''13'')]\<rparr>))) =
     (\<lambda>data. [''month''])
       (GET ((request_with (Authenticated alice) Map.empty)\<lparr>GET := [(''month'', ''13'')]\<rparr>))"
    using t by blast
  show ?thesis using present a b c range by simp
qed

section \<open>Locating a relationship\<close>

lemma get_object_or_404_map:
  assumes "\<And>x. lookup (g x) = lookup x"
  shows "get_object_or_404 lookup (map g xs) = map_sum id g (get_object_or_404 lookup xs)"
proof -
  have "filter lookup (map g xs) = map g (filter lookup xs)"
    using assms by (simp add: filter_map comp_def)
  then show ?thesis
    by (simp add: get_object_or_404_def split: list.splits)
qed

lemma get_object_or_404_found:
  assumes "get_object_or_404 lookup xs = Inr x"
  shows "x \<in> set xs \<and> lookup x"
proof -
  have "filter lookup xs = [x]"
    using assms by (simp add: get_object_or_404_def split: list.splits)
  then have "x \<in> set (filter lookup xs)" by simp
  then show ?thesis by simp
qed

lemma get_object_or_404_none:
  assumes "\<forall>x \<in> set xs. \<not> lookup x"
  shows "get_object_or_404 lookup xs = Inl Http404"
proof -
  have "filter lookup xs = []" using assms by (simp add: filter_empty_conv)
  then show ?thesis by (simp add: get_object_or_404_def)
qed

lemma get_object_or_404_only:
  assumes "x \<in> set xs" and "lookup x" and "length (filter lookup xs) \<le> 1"
  shows "get_object_or_404 lookup xs = Inr x"
proof -
  have "x \<in> set (filter lookup xs)" using assms(1,2) by simp
  then obtain y ys where f: "filter lookup xs = y # ys" and "x \<in> set (y # ys)"
    by (cases "filter lookup xs") auto
  then have "ys = []" and "y = x" using assms(3) by auto
  then show ?thesis using f by (simp add: get_object_or_404_def)
qed

lemma get_object_or_404_several:
  assumes "1 < length (filter lookup xs)"
  shows "get_object_or_404 lookup xs = Inl MultipleObjectsReturned"
  using assms by (auto simp: get_object_or_404_def split: list.splits)

lemma lookup_value_failure:
  assumes "lookup_value v = Inl e"
  shows "e = ValueError"
  using assms by (auto simp: lookup_value_def split: option.splits)

lemma get_object_parsed:
  assumes "lookup_value (REQUEST request ''user_id'') = Inr u"
    and "lookup_value (REQUEST request ''project_id'') = Inr p"
  shows "get_object db request queryset = get_object_or_404 (has_pair u p) (relationships db)"
  using assms by (simp add: get_object_def Let_def)

lemma get_object_value_error:
  "get_object db request queryset = Inl ValueError \<longleftrightarrow>
     lookup_value (REQUEST request ''user_id'') = Inl ValueError \<or>
     lookup_value (REQUEST request ''project_id'') = Inl ValueError"
proof (cases "lookup_value (REQUEST request ''user_id'')")
  case (Inl e)
  then show ?thesis
    using lookup_value_failure [OF Inl] by (simp add: get_object_def Let_def)
next
  case u: (Inr u)
  show ?thesis
  proof (cases "lookup_value (REQUEST request ''project_id'')")
    case (Inl e)
    then show ?thesis
      using u lookup_value_failure [OF Inl] by (simp add: get_object_def Let_def)
  next
    case p: (Inr p)
    have "get_object_or_404 (has_pair u p) (relationships db) \<noteq> Inl ValueError"
      using get_object_or_404_failure [of "has_pair u p" "relationships db" ValueError]
      by auto
    then show ?thesis
      using u p by (simp add: get_object_parsed [OF u p])
  qed
qed

lemma get_object_returned:
  assumes "get_object db request queryset = Inr r"
  shows "r \<in> set (relationships db) \<and>
         lookup_value (REQUEST request ''user_id'') = Inr (Some (int (rel_user r))) \<and>
         lookup_value (REQUEST request ''project_id'') = Inr (Some (int (rel_project r)))"
proof (cases "lookup_value (REQUEST request ''user_id'')")
  case (Inl e)
  then show ?thesis using assms by (simp add: get_object_def Let_def)
next
  case u: (Inr u)
  show ?thesis
  proof (cases "lookup_value (REQUEST request ''project_id'')")
    case (Inl e)
    then show ?thesis using assms u by (simp add: get_object_def Let_def)
  next
    case p: (Inr p)
    have "get_object_or_404 (has_pair u p) (relationships db) = Inr r"
      using assms by (simp add: get_object_parsed [OF u p])
    from get_object_or_404_found [OF this]
    show ?thesis using u p by (simp add: has_pair_def)
  qed
qed

lemma get_object_rekey:
  "get_object (db\<lparr>relationships := map (rekey f) (relationships db)\<rparr>) request queryset =
     map_sum id (rekey f) (get_object db request queryset)"
proof -
  have "has_pair u p (rekey f r) = has_pair u p r" for u p r
    by (simp add: has_pair_def rekey_def)
  then show ?thesis
    by (simp add: get_object_def Let_def get_object_or_404_map split: sum.splits)
qed

text \<open>
  Claim C8 as stated fails for a parameter that is not the text of an integer: no
  association exists for such a pair, and the lookup raises \<^verbatim>\<open>ValueError\<close>, not the
  not-found failure. The empty string does the same.
\<close>

theorem get_object_text_id_raises:
  "get_object staffed_store
      (request_with (Authenticated alice) [''user_id'' \<mapsto> ''abc'', ''project_id'' \<mapsto> ''1''])
      None = Inl ValueError \<and>
   get_object staffed_store
      (request_with (Authenticated alice) [''user_id'' \<mapsto> ''abc'', ''project_id'' \<mapsto> ''1''])
      None \<noteq> Inl Http404 \<and>
   get_object staffed_store
      (request_with (Authenticated alice) [''user_id'' \<mapsto> [], ''project_id'' \<mapsto> ''1''])
      None = Inl ValueError"
  by (simp add: get_object_def get_queryset_def lookup_value_def python_int_def strip_def
      is_space_def digit_value_def request_with_def)

text \<open>
  Claim C8, amended. \<^verbatim>\<open>get_object\<close> of the edit and delete views finds the association
  by the pair of \<^verbatim>\<open>user_id\<close> and \<^verbatim>\<open>project_id\<close> of the request alone, not by a surrogate
  key. It raises \<^verbatim>\<open>ValueError\<close> exactly when one of the two parameters is given and is not
  the text of an integer. Otherwise: when no stored association has the pair (as when a
  parameter is missing) the result is the not-found failure; when exactly one has it, that
  association is returned; when several have it, \<^verbatim>\<open>MultipleObjectsReturned\<close> is raised.
  An association that is returned is stored and has the pair. Two requests with the same
  two parameters get the same result whatever queryset is passed, and giving every stored
  association another surrogate key changes nothing but the key of the association found.
\<close>

theorem get_object_by_user_and_project:
  "(get_object db request queryset = Inl ValueError \<longleftrightarrow>
      lookup_value (REQUEST request ''user_id'') = Inl ValueError \<or>
      lookup_value (REQUEST request ''project_id'') = Inl ValueError) \<and>
   (\<forall>r. get_object db request queryset = Inr r \<longrightarrow>
        r \<in> set (relationships db) \<and>
        lookup_value (REQUEST request ''user_id'') = Inr (Some (int (rel_user r))) \<and>
        lookup_value (REQUEST request ''project_id'') = Inr (Some (int (rel_project r)))) \<and>
   (\<forall>u p. lookup_value (REQUEST request ''user_id'') = Inr u \<and>
          lookup_value (REQUEST request ''project_id'') = Inr p \<longrightarrow>
      ((\<forall>r \<in> set (relationships db). \<not> has_pair u p r) \<longrightarrow>
         get_object db request queryset = Inl Http404) \<and>
      (\<forall>r \<in> set (relationships db).
         has_pair u p r \<and> length (filter (has_pair u p) (relationships db)) \<le> 1 \<longrightarrow>
         get_object db request queryset = Inr r) \<and>
      (1 < length (filter (has_pair u p) (relationships db)) \<longrightarrow>
         get_object db request queryset = Inl MultipleObjectsReturned)) \<and>
   (\<forall>request' queryset'.
      REQUEST request' ''user_id'' = REQUEST request ''user_id'' \<and>
      REQUEST request' ''project_id'' = REQUEST request ''project_id'' \<longrightarrow>
      get_object db request' queryset' = get_object db request queryset) \<and>
   (\<forall>f. get_object (db\<lparr>relationships := map (rekey f) (relationships db)\<rparr>) request queryset =
        map_sum id (rekey f) (get_object db request queryset))"
proof (intro conjI allI impI ballI)
  show "get_object db request queryset = Inl ValueError \<longleftrightarrow>
      lookup_value (REQUEST request ''user_id'') = Inl ValueError \<or>
      lookup_value (REQUEST request ''project_id'') = Inl ValueError"
    by (rule get_object_value_error)
next
  fix r assume "get_object db request queryset = Inr r"
  from get_object_returned [OF this]
  show "r \<in> set (relationships db)"
    and "lookup_value (REQUEST request ''user_id'') = Inr (Some (int (rel_user r)))"
    and "lookup_value (REQUEST request ''project_id'') = Inr (Some (int (rel_project r)))"
    by simp_all
next
  fix u p
  assume parsed: "lookup_value (REQUEST request ''user_id'') = Inr u \<and>
          lookup_value (REQUEST request ''project_id'') = Inr p"
  assume "\<forall>r \<in> set (relationships db). \<not> has_pair u p r"
  then show "get_object db request queryset = Inl Http404"
    using parsed by (simp add: get_object_parsed get_object_or_404_none)
next
  fix u p r
  assume parsed: "lookup_value (REQUEST request ''user_id'') = Inr u \<and>
          lookup_value (REQUEST request ''project_id'') = Inr p"
  assume "r \<in> set (relationships db)"
    and "has_pair u p r \<and> length (filter (has_pair u p) (relationships db)) \<le> 1"
  then show "get_object db request queryset = Inr r"
    using parsed by (simp add: get_object_parsed get_object_or_404_only)
next
  fix u p
  assume parsed: "lookup_value (REQUEST request ''user_id'') = Inr u \<and>
          lookup_value (REQUEST request ''project_id'') = Inr p"
  assume "1 < length (filter (has_pair u p) (relationships db))"
  then show "get_object db request queryset = Inl MultipleObjectsReturned"
    using parsed by (simp add: get_object_parsed get_object_or_404_several)
next
  fix request' :: request and queryset'
  assume "REQUEST request' ''user_id'' = REQUEST request ''user_id'' \<and>
      REQUEST request' ''project_id'' = REQUEST request ''project_id''"
  then show "get_object db request' queryset' = get_object db request queryset"
    by (simp add: get_object_def Let_def)
next
  fix f
  show "get_object (db\<lparr>relationships := map (rekey f) (relationships db)\<rparr>) request queryset =
        map_sum id (rekey f) (get_object db request queryset)"
    by (rule get_object_rekey)
qed

theorem get_object_by_user_and_project_witness:
  "get_object staffed_store
      (request_with (Authenticated alice) [''user_id'' \<mapsto> ''1'', ''project_id'' \<mapsto> ''1''])
      None = Inr alice_on_site \<and>
   get_object staffed_store
      (request_with (Authenticated alice) [''user_id'' \<mapsto> ''2'', ''project_id'' \<mapsto> ''1''])
      None = Inl Http404 \<and>
   get_object staffed_store
      (request_with AnonymousUser [''user_id'' \<mapsto> ''1'', ''project_id'' \<mapsto> ''1''])
      (Some []) = Inr alice_on_site \<and>
   get_object staffed_store
      (request_with (Authenticated alice) [''user_id'' \<mapsto> ''abc'', ''project_id'' \<mapsto> ''1''])
      None = Inl ValueError"
proof -
  have u1: "lookup_value (REQUEST
      (request_with (Authenticated alice) [''user_id'' \<mapsto> ''1'', ''project_id'' \<mapsto> ''1''])
      ''user_id'') = Inr (Some 1)"
    and p1: "lookup_value (REQUEST
      (request_with (Authenticated alice) [''user_id'' \<mapsto> ''1'', ''project_id'' \<mapsto> ''1''])
      ''project_id'') = Inr (Some 1)"
    and u2: "lookup_value (REQUEST
      (request_with (Authenticated alice) [''user_id'' \<mapsto> ''2'', ''project_id'' \<mapsto> ''1''])
      ''user_id'') = Inr (Some 2)"
    and p2: "lookup_value (REQUEST
      (request_with (Authenticated alice) [''user_id'' \<mapsto> ''2'', ''project_id'' \<mapsto> ''1''])
      ''project_id'') = Inr (Some 1)"
    and u3: "lookup_value (REQUEST
      (request_with (Authenticated alice) [''user_id'' \<mapsto> ''abc'', ''project_id'' \<mapsto> ''1''])
      ''user_id'') = Inl ValueError"
    by (simp_all add: lookup_value_def python_int_def strip_def is_space_def digit_value_def
        request_with_def)
  have stored: "alice_on_site \<in> set (relationships staffed_store)"
    and only: "has_pair (Some 1) (Some 1) alice_on_site \<and>
      length (filter (has_pair (Some 1) (Some 1)) (relationships staffed_store)) \<le> 1"
    and none: "\<forall>r \<in> set (relationships staffed_store). \<not> has_pair (Some 2) (Some 1) r"
    by (simp_all add: staffed_store_def example_store_def alice_on_site_def has_pair_def)
  have same: "REQUEST (request_with AnonymousUser [''user_id'' \<mapsto> ''1'', ''project_id'' \<mapsto> ''1''])
        ''user_id'' =
      REQUEST (request_with (Authenticated alice) [''user_id'' \<mapsto> ''1'', ''project_id'' \<mapsto> ''1''])
        ''user_id'' \<and>
      REQUEST (request_with AnonymousUser [''user_id'' \<mapsto> ''1'', ''project_id'' \<mapsto> ''1''])
        ''project_id'' =
      REQUEST (request_with (Authenticated alice) [''user_id'' \<mapsto> ''1'', ''project_id'' \<mapsto> ''1''])
        ''project_id''"
    by (simp add: request_with_def)
  note t1 = get_object_by_user_and_project [of staffed_store
      "request_with (Authenticated alice) [''user_id'' \<mapsto> ''1'', ''project_id'' \<mapsto> ''1'']" None]
  note t2 = get_object_by_user_and_project [of staffed_store
      "request_with (Authenticated alice) [''user_id'' \<mapsto> ''2'', ''project_id'' \<mapsto> ''1'']" None]
  note t3 = get_object_by_user_and_project [of staffed_store
      "request_with (Authenticated alice) [''user_id'' \<mapsto> ''abc'', ''project_id'' \<mapsto> ''1'']" None]
  have a: "get_object staffed_store
      (request_with (Authenticated alice) [''user_id'' \<mapsto> ''1'', ''project_id'' \<mapsto> ''1''])
      None = Inr alice_on_site"
    using t1 u1 p1 stored only by blast
  have b: "get_object staffed_store
      (request_with (Authenticated alice) [''user_id'' \<mapsto> ''2'', ''project_id'' \<mapsto> ''1''])
      None = Inl Http404"
    using t2 u2 p2 none by blast
  have c: "get_object staffed_store
      (request_with AnonymousUser [''user_id'' \<mapsto> ''1'', ''project_id'' \<mapsto> ''1''])
      (Some []) = Inr alice_on_site"
    using t1 same a by metis
  have d: "get_object staffed_store
      (request_with (Authenticated alice) [''user_id'' \<mapsto> ''abc'', ''project_id'' \<mapsto> ''1''])
      None = Inl ValueError"
    using t3 u3 by blast
  show ?thesis using a b c d by blast
qed

section \<open>Creating a relationship twice\<close>

lemma get_or_create_one:
  assumes "length (filter (is_relationship user_id project_id) rels) \<le> 1"
  shows "\<exists>found rels'. get_or_create rels user_id project_id = Inr (found, rels') \<and>
           length (filter (is_relationship user_id project_id) rels') = 1 \<and>
           (filter (is_relationship user_id project_id) rels \<noteq> [] \<longrightarrow> rels' = rels)"
proof (cases "filter (is_relationship user_id project_id) rels")
  case Nil
  let ?r = "\<lparr>rel_pk = next_pk rels, rel_user = user_id, rel_project = project_id\<rparr>"
  have "get_or_create rels user_id project_id = Inr ((?r, True), rels @ [?r])"
    using Nil by (simp add: get_or_create_def Let_def)
  moreover have "length (filter (is_relationship user_id project_id) (rels @ [?r])) = 1"
    using Nil by (simp add: is_relationship_def)
  ultimately show ?thesis using Nil by blast
next
  case (Cons r rest)
  then have rest: "rest = []" using assms by simp
  have "get_or_create rels user_id project_id = Inr ((r, False), rels)"
    using Cons rest by (simp add: get_or_create_def)
  moreover have "length (filter (is_relationship user_id project_id) rels) = 1"
    using Cons rest by simp
  ultimately show ?thesis by blast
qed

lemma post_users_projects:
  "users (snd (post select_user_form select_project_form get_success_url db request)) =
     users db \<and>
   projects (snd (post select_user_form select_project_form get_success_url db request)) =
     projects db"
  by (simp add: post_def split: sum.splits option.splits prod.splits)

lemma get_user_users:
  assumes "users db' = users db"
  shows "get_user select_user_form db' request = get_user select_user_form db request"
  using assms by (simp add: get_user_def split: option.splits)

lemma get_project_projects:
  assumes "projects db' = projects db"
  shows "get_project select_project_form db' request =
     get_project select_project_form db request"
  using assms by (simp add: get_project_def split: option.splits)

lemma post_resolved:
  assumes "get_user select_user_form db request = Inr (Some u)"
    and "get_project select_project_form db request = Inr (Some p)"
    and "length (filter (is_relationship (user_pk u) (project_pk p)) (relationships db)) \<le> 1"
  shows "fst (post select_user_form select_project_form get_success_url db request) =
           Inr (HttpResponseRedirect (get_success_url request))"
    and "length (filter (is_relationship (user_pk u) (project_pk p))
           (relationships
              (snd (post select_user_form select_project_form get_success_url db request)))) = 1"
    and "filter (is_relationship (user_pk u) (project_pk p)) (relationships db) \<noteq> [] \<Longrightarrow>
           snd (post select_user_form select_project_form get_success_url db request) = db"
proof -
  from get_or_create_one [OF assms(3)]
  obtain found rels' where
    g: "get_or_create (relationships db) (user_pk u) (project_pk p) = Inr (found, rels')"
    and one: "length (filter (is_relationship (user_pk u) (project_pk p)) rels') = 1"
    and same: "filter (is_relationship (user_pk u) (project_pk p)) (relationships db) \<noteq> [] \<longrightarrow>
           rels' = relationships db"
    by blast
  have p: "post select_user_form select_project_form get_success_url db request =
      (Inr (HttpResponseRedirect (get_success_url request)), db\<lparr>relationships := rels'\<rparr>)"
    using assms(1,2) g by (simp add: post_def)
  show "fst (post select_user_form select_project_form get_success_url db request) =
           Inr (HttpResponseRedirect (get_success_url request))"
    by (simp add: p)
  show "length (filter (is_relationship (user_pk u) (project_pk p))
           (relationships
              (snd (post select_user_form select_project_form get_success_url db request)))) = 1"
    by (simp add: p one)
  show "snd (post select_user_form select_project_form get_success_url db request) = db"
    if "filter (is_relationship (user_pk u) (project_pk p)) (relationships db) \<noteq> []"
    using same that by (simp add: p)
qed

lemma post_repeatedly_once:
  assumes "get_user select_user_form db request = Inr (Some u)"
    and "get_project select_project_form db request = Inr (Some p)"
    and "length (filter (is_relationship (user_pk u) (project_pk p)) (relationships db)) \<le> 1"
  shows "post_repeatedly select_user_form select_project_form get_success_url request (Suc n) db =
           snd (post select_user_form select_project_form get_success_url db request)"
  using assms
proof (induction n arbitrary: db)
  case 0
  show ?case by simp
next
  case (Suc n)
  let ?db' = "snd (post select_user_form select_project_form get_success_url db request)"
  have u: "get_user select_user_form ?db' request = Inr (Some u)"
    using Suc.prems(1) get_user_users [of ?db' db] post_users_projects by metis
  have p: "get_project select_project_form ?db' request = Inr (Some p)"
    using Suc.prems(2) get_project_projects [of ?db' db] post_users_projects by metis
  have one: "length (filter (is_relationship (user_pk u) (project_pk p)) (relationships ?db')) = 1"
    by (rule post_resolved(2) [OF Suc.prems])
  then have le: "length (filter (is_relationship (user_pk u) (project_pk p))
      (relationships ?db')) \<le> 1"
    and ne: "filter (is_relationship (user_pk u) (project_pk p)) (relationships ?db') \<noteq> []"
    by auto
  have "post_repeatedly select_user_form select_project_form get_success_url request
          (Suc (Suc n)) db =
        post_repeatedly select_user_form select_project_form get_success_url request
          (Suc n) ?db'"
    by simp
  also have "\<dots> = snd (post select_user_form select_project_form get_success_url ?db' request)"
    by (rule Suc.IH [OF u p le])
  also have "\<dots> = ?db'"
    by (rule post_resolved(3) [OF u p le ne])
  finally show ?case .
qed

text \<open>
  Claim C7. For a request that resolves to a user and a project, and a store that holds
  at most one association for the pair (the store enforces one relationship per pair),
  any number \<open>n > 0\<close> of relationship-create requests in a row leaves exactly one stored
  association for the pair; the store after \<open>n\<close> requests is the store after the first,
  and one more request answers with the redirect and changes nothing.
\<close>

theorem create_relationship_idempotent:
  assumes "get_user select_user_form db request = Inr (Some u)"
    and "get_project select_project_form db request = Inr (Some p)"
    and "length (filter (is_relationship (user_pk u) (project_pk p)) (relationships db)) \<le> 1"
    and "0 < n"
  shows "length (filter (is_relationship (user_pk u) (project_pk p))
           (relationships
              (post_repeatedly select_user_form select_project_form get_success_url
                 request n db))) = 1 \<and>
         post_repeatedly select_user_form select_project_form get_success_url request n db =
           snd (post select_user_form select_project_form get_success_url db request) \<and>
         post select_user_form select_project_form get_success_url
           (post_repeatedly select_user_form select_project_form get_success_url request n db)
           request =
           (Inr (HttpResponseRedirect (get_success_url request)),
            post_repeatedly select_user_form select_project_form get_success_url request n db)"
proof -
  let ?db' = "snd (post select_user_form select_project_form get_success_url db request)"
  obtain m where n: "n = Suc m" using assms(4) by (cases n) simp_all
  have r: "post_repeatedly select_user_form select_project_form get_success_url request n db =
      ?db'"
    unfolding n by (rule post_repeatedly_once [OF assms(1-3)])
  have u: "get_user select_user_form ?db' request = Inr (Some u)"
    using assms(1) get_user_users [of ?db' db] post_users_projects by metis
  have p: "get_project select_project_form ?db' request = Inr (Some p)"
    using assms(2) get_project_projects [of ?db' db] post_users_projects by metis
  have one: "length (filter (is_relationship (user_pk u) (project_pk p)) (relationships ?db')) = 1"
    by (rule post_resolved(2) [OF assms(1-3)])
  then have le: "length (filter (is_relationship (user_pk u) (project_pk p))
      (relationships ?db')) \<le> 1"
    and ne: "filter (is_relationship (user_pk u) (project_pk p)) (relationships ?db') \<noteq> []"
    by auto
  have again: "post select_user_form select_project_form get_success_url ?db' request =
      (Inr (HttpResponseRedirect (get_success_url request)), ?db')"
    using post_resolved(1) [OF u p le, of get_success_url] post_resolved(3) [OF u p le ne, of get_success_url]
    by (simp add: prod_eq_iff)
  show ?thesis using r one again by simp
qed

theorem create_relationship_idempotent_witness:
  "relationships
     (post_repeatedly (\<lambda>data. None) (\<lambda>data. None) (\<lambda>request. ''/done'')
        (request_with (Authenticated alice) [''user_id'' \<mapsto> ''1'', ''project_id'' \<mapsto> ''1''])
        2 example_store) = [\<lparr>rel_pk = 1, rel_user = 1, rel_project = 1\<rparr>] \<and>
   length (filter (is_relationship (user_pk alice) (project_pk site))
     (relationships
        (post_repeatedly (\<lambda>data. None) (\<lambda>data. None) (\<lambda>request. ''/done'')
           (request_with (Authenticated alice) [''user_id'' \<mapsto> ''1'', ''project_id'' \<mapsto> ''1''])
           2 example_store))) = 1"
proof -
  have u: "get_user (\<lambda>data. None) example_store
      (request_with (Authenticated alice) [''user_id'' \<mapsto> ''1'', ''project_id'' \<mapsto> ''1'']) =
      Inr (Some alice)"
    by (simp add: get_user_def get_by_pk_or_404_def get_object_or_404_def python_int_def
        strip_def is_space_def digit_value_def request_with_def example_store_def
        alice_def bob_def)
  have p: "get_project (\<lambda>data. None) example_store
      (request_with (Authenticated alice) [''user_id'' \<mapsto> ''1'', ''project_id'' \<mapsto> ''1'']) =
      Inr (Some site)"
    by (simp add: get_project_def get_by_pk_or_404_def get_object_or_404_def python_int_def
        strip_def is_space_def digit_value_def request_with_def example_store_def site_def)
  have le: "length (filter (is_relationship (user_pk alice) (project_pk site))
      (relationships example_store)) \<le> 1"
    by (simp add: example_store_def)
  have n: "(0::nat) < 2" by simp
  have first: "snd (post (\<lambda>data. None) (\<lambda>data. None) (\<lambda>request. ''/done'') example_store
      (request_with (Authenticated alice) [''user_id'' \<mapsto> ''1'', ''project_id'' \<mapsto> ''1''])) =
      example_store\<lparr>relationships := [\<lparr>rel_pk = 1, rel_user = 1, rel_project = 1\<rparr>]\<rparr>"
    using u p
    by (simp add: post_def get_or_create_def next_pk_def is_relationship_def Let_def
        example_store_def alice_def site_def)
  note t = create_relationship_idempotent [OF u p le n, of "\<lambda>request. ''/done''"]
  have a: "post_repeatedly (\<lambda>data. None) (\<lambda>data. None) (\<lambda>request. ''/done'')
        (request_with (Authenticated alice) [''user_id'' \<mapsto> ''1'', ''project_id'' \<mapsto> ''1''])
        2 example_store =
      example_store\<lparr>relationships := [\<lparr>rel_pk = 1, rel_user = 1, rel_project = 1\<rparr>]\<rparr>"
    using t first by metis
  have b: "length (filter (is_relationship (user_pk alice) (project_pk site))
     (relationships
        (post_repeatedly (\<lambda>data. None) (\<lambda>data. None) (\<lambda>request. ''/done'')
           (request_with (Authenticated alice) [''user_id'' \<mapsto> ''1'', ''project_id'' \<mapsto> ''1''])
           2 example_store))) = 1"
    using t by blast
  have c: "relationships
     (post_repeatedly (\<lambda>data. None) (\<lambda>data. None) (\<lambda>request. ''/done'')
        (request_with (Authenticated alice) [''user_id'' \<mapsto> ''1'', ''project_id'' \<mapsto> ''1''])
        2 example_store) = [\<lparr>rel_pk = 1, rel_user = 1, rel_project = 1\<rparr>]"
    unfolding a by simp
  show ?thesis by (rule conjI [OF c b])
qed

section \<open>The entries of a monthly timesheet\<close>

lemma end_time_in_range_iff:
  "end_time_in_range start end e \<longleftrightarrow> (\<exists>t. end_time e = Some t \<and> start \<le> t \<and> t \<le> end)"
  by (simp add: end_time_in_range_def split: option.splits)

lemma sorted_map_Some:
  "sorted (map Some ts) \<longleftrightarrow> sorted (ts :: int list)"
  by (induction ts) simp_all

text \<open>
  Claim C6. The list returned by \<^verbatim>\<open>get_month_entries\<close> is the list of summaries of
  exactly those stored entries, each as often as it is stored, that belong to the
  timesheet user and whose end time lies between the start and the end of the extended
  month range, both included; the entries are in ascending order of end time.
\<close>

theorem get_month_entries_in_range_sorted:
  "\<exists>qs ts. get_month_entries summary db (start, end) view = map summary qs \<and>
     mset qs =
       filter_mset
         (\<lambda>e. entry_user e = user_pk (timesheet_user view) \<and>
              (\<exists>t. end_time e = Some t \<and> start \<le> t \<and> t \<le> end))
         (mset (entries db)) \<and>
     map end_time qs = map Some ts \<and> sorted ts"
proof -
  define qs where "qs = sort_key end_time
     (filter (end_time_in_range start end)
        (filter (\<lambda>e. entry_user e = user_pk (timesheet_user view)) (entries db)))"
  define ts where "ts = map (\<lambda>e. case end_time e of None \<Rightarrow> 0 | Some t \<Rightarrow> t) qs"
  have result: "get_month_entries summary db (start, end) view = map summary qs"
    by (simp add: get_month_entries_def qs_def)
  have members: "mset qs =
       filter_mset
         (\<lambda>e. entry_user e = user_pk (timesheet_user view) \<and>
              (\<exists>t. end_time e = Some t \<and> start \<le> t \<and> t \<le> end))
         (mset (entries db))"
    unfolding qs_def
    by (simp add: end_time_in_range_iff conj_commute cong: conj_cong)
  have "\<forall>e \<in> set qs. end_time_in_range start end e"
    by (simp add: qs_def)
  then have "\<forall>e \<in> set qs. end_time e = Some (case end_time e of None \<Rightarrow> 0 | Some t \<Rightarrow> t)"
    by (auto simp: end_time_in_range_iff)
  then have times: "map end_time qs = map Some ts"
    by (simp add: ts_def)
  have "sorted (map end_time qs)"
    by (simp add: qs_def)
  then have "sorted ts"
    by (simp add: times sorted_map_Some)
  then show ?thesis
    using result members times by blast
qed

section \<open>Totals of a project timesheet\<close>

lemma sum_groups_over:
  assumes "finite K" and "key ` set qs \<subseteq> K"
  shows "(\<Sum>k\<in>K. sum_list (map hours (filter (\<lambda>e. key e = k) qs))) = sum_list (map hours qs)"
  using assms(2)
proof (induction qs)
  case Nil
  show ?case by simp
next
  case (Cons x xs)
  have "(\<Sum>k\<in>K. sum_list (map hours (filter (\<lambda>e. key e = k) (x # xs)))) =
      (\<Sum>k\<in>K. (if key x = k then hours x else 0) +
                sum_list (map hours (filter (\<lambda>e. key e = k) xs)))"
    by (rule sum.cong) simp_all
  also have "\<dots> = (\<Sum>k\<in>K. if key x = k then hours x else 0) +
      (\<Sum>k\<in>K. sum_list (map hours (filter (\<lambda>e. key e = k) xs)))"
    by (rule sum.distrib)
  also have "(\<Sum>k\<in>K. if key x = k then hours x else 0) = hours x"
    using assms(1) Cons.prems by (simp add: sum.delta')
  also have "(\<Sum>k\<in>K. sum_list (map hours (filter (\<lambda>e. key e = k) xs))) =
      sum_list (map hours xs)"
    using Cons.prems by (intro Cons.IH) simp
  finally show ?case by simp
qed

lemma sum_values_annotate_sum:
  "sum_list (map snd (values_annotate_sum key qs)) = sum_list (map hours qs)"
proof -
  have "sum_list (map snd (values_annotate_sum key qs)) =
      (\<Sum>k\<in>set (map key qs). sum_list (map hours (filter (\<lambda>e. key e = k) qs)))"
    by (simp add: values_annotate_sum_def comp_def sum_list_distinct_conv_sum_set)
  also have "\<dots> = sum_list (map hours qs)"
    by (rule sum_groups_over) simp_all
  finally show ?thesis .
qed

lemma sum_order_by_minus_sum:
  "sum_list (map snd (order_by_minus_sum rows)) = sum_list (map snd rows)"
proof -
  have "sum_list (map snd (order_by_minus_sum rows)) =
      sum_mset (image_mset snd (mset (order_by_minus_sum rows)))"
    by (simp add: sum_mset_sum_list [symmetric])
  also have "\<dots> = sum_mset (image_mset snd (mset rows))"
    by (simp add: order_by_minus_sum_def)
  also have "\<dots> = sum_list (map snd rows)"
    by (simp add: sum_mset_sum_list [symmetric])
  finally show ?thesis .
qed

lemma order_by_minus_sum_values_empty:
  "order_by_minus_sum (values_annotate_sum key qs) = [] \<longleftrightarrow> qs = []"
proof -
  have "order_by_minus_sum (values_annotate_sum key qs) = [] \<longleftrightarrow>
      length (order_by_minus_sum (values_annotate_sum key qs)) = 0"
    by simp
  also have "\<dots> \<longleftrightarrow> remdups (map key qs) = []"
    by (simp add: order_by_minus_sum_def values_annotate_sum_def)
  also have "\<dots> \<longleftrightarrow> qs = []"
    by (simp add: remdups_eq_nil_iff)
  finally show ?thesis .
qed

lemma grouped_totals:
  "Sum_hours qs =
     (if qs = [] then None
      else Some (sum_list (map snd (order_by_minus_sum (values_annotate_sum key qs)))))"
  by (simp add: Sum_hours_def sum_order_by_minus_sum sum_values_annotate_sum)

lemma get_context_data_aggregates:
  fixes clean save timespan date_trunc tz today request
    and db :: store and project :: project
  defines "ctx \<equiv> get_context_data clean save timespan date_trunc tz today db project request"
  defines "qs \<equiv> filter (\<lambda>e. entry_project e = project_pk project)
                   (filter (timespan (ctx_from_date ctx)) (entries db))"
  shows "ctx_total ctx = Sum_hours qs"
    and "ctx_user_entries ctx = order_by_minus_sum
           (values_annotate_sum (\<lambda>e. (user_first_name e, user_last_name e)) qs)"
    and "ctx_activity_entries ctx = order_by_minus_sum (values_annotate_sum activity_name qs)"
  unfolding qs_def ctx_def
  by (simp_all add: get_context_data_def Let_def split_beta)

text \<open>
  Claim C2 as stated fails for the empty set of entries: the total of the context is
  \<^verbatim>\<open>None\<close>, not the sum of the (empty) list of per-user totals, which is zero.
\<close>

theorem total_of_no_entries_is_none:
  "ctx_total (get_context_data (\<lambda>data. [])
       (\<lambda>form. (\<lparr>year = 2000, month = 1, day = 1\<rparr>, \<lparr>year = 2000, month = 2, day = 1\<rparr>))
       (\<lambda>from_date e. True) (\<lambda>qs. []) () \<lparr>year = 2014, month = 2, day = 17\<rparr>
       example_store site (request_with (Authenticated alice) Map.empty)) = None \<and>
   sum_list (map snd (ctx_user_entries (get_context_data (\<lambda>data. [])
       (\<lambda>form. (\<lparr>year = 2000, month = 1, day = 1\<rparr>, \<lparr>year = 2000, month = 2, day = 1\<rparr>))
       (\<lambda>from_date e. True) (\<lambda>qs. []) () \<lparr>year = 2014, month = 2, day = 17\<rparr>
       example_store site (request_with (Authenticated alice) Map.empty)))) = 0 \<and>
   ctx_total (get_context_data (\<lambda>data. [])
       (\<lambda>form. (\<lparr>year = 2000, month = 1, day = 1\<rparr>, \<lparr>year = 2000, month = 2, day = 1\<rparr>))
       (\<lambda>from_date e. True) (\<lambda>qs. []) () \<lparr>year = 2014, month = 2, day = 17\<rparr>
       example_store site (request_with (Authenticated alice) Map.empty)) \<noteq>
   Some (sum_list (map snd (ctx_user_entries (get_context_data (\<lambda>data. [])
       (\<lambda>form. (\<lparr>year = 2000, month = 1, day = 1\<rparr>, \<lparr>year = 2000, month = 2, day = 1\<rparr>))
       (\<lambda>from_date e. True) (\<lambda>qs. []) () \<lparr>year = 2014, month = 2, day = 17\<rparr>
       example_store site (request_with (Authenticated alice) Map.empty)))))"
  by (simp add: get_context_data_def Let_def GET_or_None_def Sum_hours_def
      values_annotate_sum_def order_by_minus_sum_def example_store_def request_with_def)

text \<open>
  Claim C2, amended. For the entries of a project within the selected month: when there
  is at least one such entry, the total of the project timesheet is the sum of their
  hours, and it equals the sum of the per-user totals and the sum of the per-activity
  totals; when there is none, the total is \<^verbatim>\<open>None\<close> and both lists of totals are empty.
\<close>

theorem project_timesheet_totals:
  fixes clean save timespan date_trunc tz today request
    and db :: store and project :: project
  defines "ctx \<equiv> get_context_data clean save timespan date_trunc tz today db project request"
  shows "(ctx_total ctx = None \<longleftrightarrow>
            (\<forall>e \<in> set (entries db).
               \<not> (timespan (ctx_from_date ctx) e \<and> entry_project e = project_pk project))) \<and>
         (case ctx_total ctx of
            None \<Rightarrow> ctx_user_entries ctx = [] \<and> ctx_activity_entries ctx = []
          | Some h \<Rightarrow>
              h = sum_list (map hours
                    (filter (\<lambda>e. entry_project e = project_pk project)
                       (filter (timespan (ctx_from_date ctx)) (entries db)))) \<and>
              h = sum_list (map snd (ctx_user_entries ctx)) \<and>
              h = sum_list (map snd (ctx_activity_entries ctx)) \<and>
              ctx_user_entries ctx \<noteq> [] \<and> ctx_activity_entries ctx \<noteq> [])"
proof -
  define qs where "qs = filter (\<lambda>e. entry_project e = project_pk project)
                   (filter (timespan (ctx_from_date ctx)) (entries db))"
  have t: "ctx_total ctx = Sum_hours qs"
    and u: "ctx_user_entries ctx = order_by_minus_sum
           (values_annotate_sum (\<lambda>e. (user_first_name e, user_last_name e)) qs)"
    and a: "ctx_activity_entries ctx = order_by_minus_sum (values_annotate_sum activity_name qs)"
    unfolding qs_def ctx_def by (rule get_context_data_aggregates)+
  have empty: "qs = [] \<longleftrightarrow>
      (\<forall>e \<in> set (entries db).
         \<not> (timespan (ctx_from_date ctx) e \<and> entry_project e = project_pk project))"
    by (auto simp: qs_def filter_empty_conv)
  show ?thesis
  proof (cases "qs = []")
    case True
    then show ?thesis
      using empty by (simp add: t u a Sum_hours_def order_by_minus_sum_values_empty)
  next
    case False
    have "ctx_total ctx = Some (sum_list (map hours qs))"
      using False by (simp add: t Sum_hours_def)
    moreover have "sum_list (map hours qs) = sum_list (map snd (ctx_user_entries ctx))"
      by (simp add: u sum_order_by_minus_sum sum_values_annotate_sum)
    moreover have "sum_list (map hours qs) = sum_list (map snd (ctx_activity_entries ctx))"
      by (simp add: a sum_order_by_minus_sum sum_values_annotate_sum)
    moreover have "ctx_user_entries ctx \<noteq> []" and "ctx_activity_entries ctx \<noteq> []"
      using False by (simp_all add: u a order_by_minus_sum_values_empty)
    ultimately show ?thesis
      using False empty by (simp add: qs_def)
  qed
qed

theorem project_timesheet_totals_witness:
  "ctx_total (get_context_data (\<lambda>data. [])
       (\<lambda>form. (\<lparr>year = 2000, month = 1, day = 1\<rparr>, \<lparr>year = 2000, month = 2, day = 1\<rparr>))
       (\<lambda>from_date e. True) (\<lambda>qs. []) () \<lparr>year = 2014, month = 2, day = 17\<rparr>
       busy_store site (request_with (Authenticated alice) Map.empty)) = Some 750 \<and>
   sum_list (map snd (ctx_user_entries (get_context_data (\<lambda>data. [])
       (\<lambda>form. (\<lparr>year = 2000, month = 1, day = 1\<rparr>, \<lparr>year = 2000, month = 2, day = 1\<rparr>))
       (\<lambda>from_date e. True) (\<lambda>qs. []) () \<lparr>year = 2014, month = 2, day = 17\<rparr>
       busy_store site (request_with (Authenticated alice) Map.empty)))) = 750 \<and>
   sum_list (map snd (ctx_activity_entries (get_context_data (\<lambda>data. [])
       (\<lambda>form. (\<lparr>year = 2000, month = 1, day = 1\<rparr>, \<lparr>year = 2000, month = 2, day = 1\<rparr>))
       (\<lambda>from_date e. True) (\<lambda>qs. []) () \<lparr>year = 2014, month = 2, day = 17\<rparr>
       busy_store site (request_with (Authenticated alice) Map.empty)))) = 750"
proof -
  have total: "ctx_total (get_context_data (\<lambda>data. [])
       (\<lambda>form. (\<lparr>year = 2000, month = 1, day = 1\<rparr>, \<lparr>year = 2000, month = 2, day = 1\<rparr>))
       (\<lambda>from_date e. True) (\<lambda>qs. []) () \<lparr>year = 2014, month = 2, day = 17\<rparr>
       busy_store site (request_with (Authenticated alice) Map.empty)) = Some 750"
    by (simp add: get_context_data_def Let_def Sum_hours_def busy_store_def example_store_def
        request_with_def logged_def site_def)
  note t = project_timesheet_totals [of "\<lambda>data. []"
       "\<lambda>form. (\<lparr>year = 2000, month = 1, day = 1\<rparr>, \<lparr>year = 2000, month = 2, day = 1\<rparr>)"
       "\<lambda>from_date e. True" "\<lambda>qs. []" "()" "\<lparr>year = 2014, month = 2, day = 17\<rparr>"
       busy_store site "request_with (Authenticated alice) Map.empty"]
  show ?thesis
    using t unfolding total by simp
qed


end
